theory Spec2Isabelle
  imports Main
begin

section \<open>JavaScript values used by the camera services\<close>

text \<open>
  A JavaScript string that may be \<^verbatim>\<open>null\<close> or \<^verbatim>\<open>undefined\<close> is a \<open>string option\<close>.
  A value is falsy when it is \<^verbatim>\<open>null\<close> or the empty string. Device paths, camera types and
  model names are ASCII, so one \<open>char\<close> is one UTF-16 code unit.
\<close>

fun truthy :: "string option \<Rightarrow> bool" where
  "truthy None = False"
| "truthy (Some s) = (s \<noteq> [])"

text \<open>\<^verbatim>\<open>String.prototype.startsWith\<close> and \<^verbatim>\<open>String.prototype.includes\<close>: both compare
  code units, so both are case-sensitive.\<close>

fun startsWith :: "string \<Rightarrow> string \<Rightarrow> bool" where
  "startsWith s [] = True"
| "startsWith [] (p # ps) = False"
| "startsWith (c # cs) (p # ps) = (c = p \<and> startsWith cs ps)"

fun js_includes :: "string \<Rightarrow> string \<Rightarrow> bool" where
  "js_includes [] pat = startsWith [] pat"
| "js_includes (c # cs) pat = (startsWith (c # cs) pat \<or> js_includes cs pat)"

text \<open>\<^verbatim>\<open>s.replace(pat, rep)\<close> with a string pattern replaces the first occurrence only.\<close>

fun replace_first :: "string \<Rightarrow> string \<Rightarrow> string \<Rightarrow> string" where
  "replace_first [] pat rep = (if pat = [] then rep else [])"
| "replace_first (c # cs) pat rep =
     (if startsWith (c # cs) pat then rep @ drop (length pat) (c # cs)
      else c # replace_first cs pat rep)"

datatype js_error = TypeError | Error string

section \<open>Processes, events and the state of the stream service\<close>

text \<open>
  \<^verbatim>\<open>this.mjpegProcess\<close> of \<^verbatim>\<open>CameraStreamService\<close> holds whatever the stream modules returned:
  a child process (identified by the number it was spawned under) or, on the 5D path,
  the promise returned by the \<^verbatim>\<open>async\<close> function \<^verbatim>\<open>createMjpegStream\<close>.
\<close>

datatype handle = ChildProcess nat | Promise5D

datatype event =
    StartStreamCalled "string option" "string option" "string option"
  | StopStreamCalled
  | Spawned string "string list" "nat option"
  | Killed nat
  | Delay nat
  | ReleaseDevices
  | Copied string string

text \<open>
  An event \<open>Spawned cmd args r\<close> records a call \<^verbatim>\<open>spawn(cmd, args)\<close> and the child it
  gave, if any; the short-lived \<^verbatim>\<open>exec\<close> calls that query a device are answered by the
  environment and leave no event. \<open>Killed p\<close> records a SIGTERM sent to child \<open>p\<close>, by
  \<^verbatim>\<open>kill\<close> on the child or by \<^verbatim>\<open>process.kill\<close> on its number; \<open>ReleaseDevices\<close> records a
  call of \<^verbatim>\<open>releaseDevices\<close>, and \<open>Delay n\<close> a wait of \<open>n\<close> milliseconds.
\<close>

text \<open>
  \<open>files\<close> is the filesystem (the paths that exist). \<open>alive\<close> lists the ffmpeg
  children of the application that are running, which is what \<^verbatim>\<open>ps\<close> shows of them
  (ffmpeg processes of other programs are not part of the state).
  \<open>watched\<close> lists the children that carry the handlers installed by
  \<^verbatim>\<open>setupStreamErrorHandling\<close> with the service's \<^verbatim>\<open>onStreamEnd\<close> callback, \<open>unlistened\<close>
  the children on which nothing listens for \<^verbatim>\<open>error\<close>. \<open>previewTimers\<close> holds the intervals
  set by \<^verbatim>\<open>createMjpegStream\<close>: the child that owns the interval and the arguments of the
  preview command. \<open>pendingR6\<close> and \<open>pending5D\<close> are the asynchronous stream set-ups that
  have not settled; an R6 set-up carries a flag that tells whether its awaited
  \<^verbatim>\<open>releaseDevices\<close> has run. \<open>releasing\<close> counts the \<^verbatim>\<open>releaseDevices\<close> calls of
  \<^verbatim>\<open>stopStream\<close> whose \<^verbatim>\<open>ps\<close> has not answered yet. \<open>crashed\<close> is set when an uncaught
  exception has ended the Node process. \<open>trace\<close> is the sequence of observable actions.
\<close>

record world =
  files :: "string set"
  mjpegProcess :: "handle option"
  mjpegUrl :: "string option"
  alive :: "nat list"
  watched :: "nat list"
  unlistened :: "nat list"
  previewTimers :: "(nat \<times> string list) list"
  pendingR6 :: "(string \<times> string option \<times> string option \<times> bool) list"
  pending5D :: "string list"
  releasing :: nat
  crashed :: bool
  nextPid :: nat
  trace :: "event list"

definition emit :: "event \<Rightarrow> world \<Rightarrow> world" where
  "emit e w = w\<lparr>trace := trace w @ [e]\<rparr>"

text \<open>\<^verbatim>\<open>spawn(cmd, args)\<close>: either a new child, which is then running, or a synchronous
  exception (\<open>ok = False\<close>), as the environment decides.\<close>

definition spawn :: "string \<Rightarrow> string list \<Rightarrow> bool \<Rightarrow> world \<Rightarrow> nat option \<times> world" where
  "spawn cmd args ok w =
     (if ok then (Some (nextPid w),
                  (emit (Spawned cmd args (Some (nextPid w))) w)
                    \<lparr>alive := alive w @ [nextPid w], nextPid := Suc (nextPid w)\<rparr>)
      else (None, emit (Spawned cmd args None) w))"

text \<open>A child has ended: it is no longer running, and the \<^verbatim>\<open>exit\<close> handler that
  \<^verbatim>\<open>createMjpegStream\<close> attached to it clears its preview interval.\<close>

definition child_gone :: "nat \<Rightarrow> world \<Rightarrow> world" where
  "child_gone p w =
     w\<lparr>alive := removeAll p (alive w),
       previewTimers := filter (\<lambda>timer. fst timer \<noteq> p) (previewTimers w)\<rparr>"

definition mjpeg_url :: string where
  "mjpeg_url = ''/api/camera/mjpeg-stream''"

subsection \<open>releaseDevices of stream/r6-stream.js\<close>

text \<open>
  \<^verbatim>\<open>releaseDevices\<close> lists the processes with \<^verbatim>\<open>ps\<close> and sends SIGTERM to every one whose
  line contains \<^verbatim>\<open>ffmpeg\<close>; an exception of \<^verbatim>\<open>process.kill\<close> is caught, and so is a failure
  of \<^verbatim>\<open>ps\<close>, after which nothing is signalled. The signals go to the children that are
  running when \<^verbatim>\<open>ps\<close> answers, the recorded preview child among them.
\<close>

definition releaseDevices_signals :: "bool \<Rightarrow> world \<Rightarrow> world" where
  "releaseDevices_signals ps_ok w =
     (if ps_ok then w\<lparr>trace := trace w @ map Killed (alive w)\<rparr> else w)"

text \<open>The \<^verbatim>\<open>releaseDevices\<close> call that \<^verbatim>\<open>stopStream\<close> started and did not await.\<close>

definition releaseRuns :: "bool \<Rightarrow> world \<Rightarrow> world" where
  "releaseRuns ps_ok w =
     (if releasing w = 0 then w
      else (releaseDevices_signals ps_ok w)\<lparr>releasing := releasing w - 1\<rparr>)"

text \<open>Within a stretch of time, the \<^verbatim>\<open>ps\<close> of such a call answers (and succeeds or
  fails) or does not answer yet.\<close>

definition psAnswers :: "bool option \<Rightarrow> world \<Rightarrow> world" where
  "psAnswers ps w = (case ps of None \<Rightarrow> w | Some ps_ok \<Rightarrow> releaseRuns ps_ok w)"

subsection \<open>stream/error-handler.js\<close>

text \<open>
  \<^verbatim>\<open>setupStreamErrorHandling(streamProcess, onStreamEnd)\<close> returns at once for a falsy
  argument and otherwise evaluates \<^verbatim>\<open>streamProcess.stderr.on(...)\<close>. A promise has no
  \<^verbatim>\<open>stderr\<close> property, so the call raises a TypeError for it and installs nothing.
\<close>

definition setupStreamErrorHandling :: "handle option \<Rightarrow> world \<Rightarrow> js_error + world" where
  "setupStreamErrorHandling h w =
     (case h of
        None \<Rightarrow> Inr w
      | Some (ChildProcess p) \<Rightarrow> Inr (w\<lparr>watched := p # watched w\<rparr>)
      | Some Promise5D \<Rightarrow> Inl TypeError)"

text \<open>The \<^verbatim>\<open>onStreamEnd\<close> callback built in \<^verbatim>\<open>startStream\<close>.\<close>

definition onStreamEnd :: "world \<Rightarrow> world" where
  "onStreamEnd w = w\<lparr>mjpegProcess := None, mjpegUrl := None\<rparr>"

text \<open>
  The handlers, for an event of child \<open>p\<close>. A chunk of standard error changes nothing
  unless the child is watched. An \<^verbatim>\<open>error\<close> event of a watched child runs the callback;
  on a child with no listener for it, Node raises it as an uncaught exception, and no
  handler for uncaught exceptions is installed anywhere in the application. A \<^verbatim>\<open>close\<close>
  comes after the child has ended.
\<close>

definition stderrData :: "nat \<Rightarrow> string \<Rightarrow> world \<Rightarrow> world" where
  "stderrData p output w =
     (if p \<notin> set (watched w) then w
      else if js_includes output ''No such device'' \<or> js_includes output ''Device or resource busy''
        then onStreamEnd (emit (Killed p) w)
      else if js_includes output ''Not a video capture device''
        then onStreamEnd (emit (Killed p) w)
      else w)"

definition processError :: "nat \<Rightarrow> world \<Rightarrow> world" where
  "processError p w =
     (if p \<in> set (watched w) then onStreamEnd w
      else if p \<in> set (unlistened w) then w\<lparr>crashed := True\<rparr>
      else w)"

definition processExit :: "nat \<Rightarrow> world \<Rightarrow> world" where
  "processExit p w = child_gone p w"

definition processClose :: "nat \<Rightarrow> world \<Rightarrow> world" where
  "processClose p w =
     (if p \<in> set (watched w) then onStreamEnd (child_gone p w) else child_gone p w)"

subsection \<open>stream/mjpeg-stream.js\<close>

definition mjpegArgs :: "string \<Rightarrow> string option \<Rightarrow> string option \<Rightarrow> string list" where
  "mjpegArgs devicePath cameraType cameraModel =
     (let isSpecialCanon = (truthy cameraModel \<and>
            (js_includes (the cameraModel) ''R6 Mark II'' \<or>
             (cameraType = Some ''canon'' \<and> js_includes devicePath ''/dev/video1'')))
      in [''-f'', ''v4l2'', ''-framerate'', ''15'', ''-video_size'', ''640x480'']
         @ (if isSpecialCanon then [''-input_format'', ''mjpeg''] else [])
         @ [''-i'', devicePath]
         @ [''-c:v'', ''mjpeg'', ''-q:v'', ''5'', ''-f'', ''mpjpeg'', ''-r'', ''15'', ''-''])"

definition setupMjpegStream ::
  "string option \<Rightarrow> string option \<Rightarrow> string option \<Rightarrow> bool \<Rightarrow> world
     \<Rightarrow> (handle option \<times> string option) \<times> world" where
  "setupMjpegStream devicePath cameraType cameraModel spawn_ok w =
     (case devicePath of
        None \<Rightarrow> ((None, None), w)
      | Some d \<Rightarrow>
          if d = [] then ((None, None), w)
          else (case spawn ''ffmpeg'' (mjpegArgs d cameraType cameraModel) spawn_ok w of
                  (None, w1) \<Rightarrow> ((None, None), w1)
                | (Some p, w1) \<Rightarrow>
                    (case setupStreamErrorHandling (Some (ChildProcess p)) w1 of
                       Inl e \<Rightarrow> ((None, None), w1)
                     | Inr w2 \<Rightarrow> ((Some (ChildProcess p), Some mjpeg_url), w2))))"

subsection \<open>camera-stream.service.js\<close>

definition isR6 :: "string \<Rightarrow> string option \<Rightarrow> string option \<Rightarrow> bool" where
  "isR6 devicePath cameraType cameraModel =
     (truthy cameraModel \<and>
       (js_includes (the cameraModel) ''R6 Mark II'' \<or>
        js_includes (the cameraModel) ''R6'' \<or>
        (cameraType = Some ''canon'' \<and> js_includes devicePath ''/dev/video1'')))"

definition is5D :: "string option \<Rightarrow> bool" where
  "is5D cameraModel =
     (truthy cameraModel \<and>
       (js_includes (the cameraModel) ''5D Mark IV'' \<or>
        js_includes (the cameraModel) ''5D'' \<or>
        js_includes (the cameraModel) ''EOS 5D''))"

text \<open>
  \<^verbatim>\<open>startStream\<close>. On the R6 path the set-up is asynchronous: the call starts
  \<^verbatim>\<open>setupSpecializedR6Stream\<close>, whose first statement awaits \<^verbatim>\<open>releaseDevices\<close>, and
  returns the (still empty) references. On the 5D path the promise of
  \<^verbatim>\<open>createMjpegStream\<close> is stored as the process, the URL is set, and
  \<^verbatim>\<open>setupErrorHandling\<close> is called on the stored value; its exception is caught, and the
  fallback to the standard set-up runs only if no process is recorded.
\<close>

definition startStream ::
  "string option \<Rightarrow> string option \<Rightarrow> string option \<Rightarrow> bool \<Rightarrow> world
     \<Rightarrow> (handle option \<times> string option) \<times> world" where
  "startStream devicePath cameraType cameraModel spawn_ok w0 =
     (let w = emit (StartStreamCalled devicePath cameraType cameraModel) w0 in
      if mjpegProcess w \<noteq> None then ((mjpegProcess w, mjpegUrl w), w)
      else if \<not> truthy devicePath then ((None, None), w)
      else
        (let d = the devicePath;
             w' =
               (if isR6 d cameraType cameraModel then
                  emit ReleaseDevices
                    (w\<lparr>pendingR6 := pendingR6 w @ [(d, cameraType, cameraModel, False)]\<rparr>)
                else if is5D cameraModel then
                  (let w1 = w\<lparr>pending5D := pending5D w @ [d],
                              mjpegProcess := Some Promise5D,
                              mjpegUrl := Some mjpeg_url\<rparr>
                   in case setupStreamErrorHandling (mjpegProcess w1) w1 of
                        Inr w2 \<Rightarrow> w2
                      | Inl e \<Rightarrow>
                          if mjpegProcess w1 = None then
                            (case setupMjpegStream devicePath cameraType cameraModel spawn_ok w1 of
                               (r, w2) \<Rightarrow> w2\<lparr>mjpegProcess := fst r, mjpegUrl := snd r\<rparr>)
                          else w1)
                else
                  (case setupMjpegStream devicePath cameraType cameraModel spawn_ok w of
                     (r, w2) \<Rightarrow> w2\<lparr>mjpegProcess := fst r, mjpegUrl := snd r\<rparr>))
         in ((mjpegProcess w', mjpegUrl w'), w')))"

text \<open>
  \<^verbatim>\<open>stopStream\<close>. \<^verbatim>\<open>kill('SIGTERM')\<close> is sent when the recorded value has a \<^verbatim>\<open>kill\<close>
  method (a promise has none); an exception of \<^verbatim>\<open>kill\<close> is caught. Both references are
  cleared, and \<^verbatim>\<open>releaseDevices\<close> is started without being awaited: its signals are sent
  later, when \<^verbatim>\<open>ps\<close> has answered.
\<close>

definition stopStream :: "world \<Rightarrow> world" where
  "stopStream w0 =
     (let w = emit StopStreamCalled w0;
          w1 = (case mjpegProcess w of
                  None \<Rightarrow> w
                | Some h \<Rightarrow>
                    (case h of ChildProcess p \<Rightarrow> emit (Killed p) w | Promise5D \<Rightarrow> w)
                      \<lparr>mjpegProcess := None\<rparr>);
          w2 = w1\<lparr>mjpegUrl := None\<rparr>
      in (emit ReleaseDevices w2)\<lparr>releasing := Suc (releasing w2)\<rparr>)"

text \<open>
  The R6 set-up in two steps. First the awaited \<^verbatim>\<open>releaseDevices\<close> runs. Later the
  set-up settles: it resolves with no process (no capture device, or an internal
  error), or it spawns ffmpeg with the arguments it chose, installs the handlers and
  resolves with the child, and the \<^verbatim>\<open>then\<close> callback records the child only if no process
  is recorded. The \<^verbatim>\<open>catch\<close> callback falls back to the standard set-up.
\<close>

definition releaseR6 :: "nat \<Rightarrow> bool \<Rightarrow> world \<Rightarrow> world" where
  "releaseR6 i ps_ok w =
     (if i < length (pendingR6 w) \<and> \<not> snd (snd (snd (pendingR6 w ! i))) then
        (case pendingR6 w ! i of
           (d, cameraType, cameraModel, released) \<Rightarrow>
             (releaseDevices_signals ps_ok w)
               \<lparr>pendingR6 := (pendingR6 w)[i := (d, cameraType, cameraModel, True)]\<rparr>)
      else w)"

datatype r6_result = R6NoProcess | R6Started "string list" | R6Rejected bool

definition settleR6 :: "nat \<Rightarrow> r6_result \<Rightarrow> world \<Rightarrow> world" where
  "settleR6 i res w =
     (if i < length (pendingR6 w) \<and> snd (snd (snd (pendingR6 w ! i))) then
        (case pendingR6 w ! i of
           (d, cameraType, cameraModel, released) \<Rightarrow>
             (let w1 = w\<lparr>pendingR6 := take i (pendingR6 w) @ drop (Suc i) (pendingR6 w)\<rparr>
              in case res of
                   R6NoProcess \<Rightarrow> w1
                 | R6Started args \<Rightarrow>
                     (case spawn ''ffmpeg'' args True w1 of
                        (None, w2) \<Rightarrow> w2
                      | (Some p, w2) \<Rightarrow>
                          (case setupStreamErrorHandling (Some (ChildProcess p)) w2 of
                             Inl e \<Rightarrow> w2
                           | Inr w3 \<Rightarrow>
                               if mjpegProcess w3 = None
                               then w3\<lparr>mjpegProcess := Some (ChildProcess p),
                                       mjpegUrl := Some mjpeg_url\<rparr>
                               else w3))
                 | R6Rejected spawn_ok \<Rightarrow>
                     if mjpegProcess w1 = None then
                       (case setupMjpegStream (Some d) cameraType cameraModel spawn_ok w1 of
                          (r, w2) \<Rightarrow> w2\<lparr>mjpegProcess := fst r, mjpegUrl := snd r\<rparr>)
                     else w1))
      else w)"

text \<open>
  The 5D set-up. \<^verbatim>\<open>createMjpegStream\<close> raises before it has a child, or it spawns the
  stream command, calls \<^verbatim>\<open>generatePreview\<close> once, which spawns a detached preview command
  inside a \<^verbatim>\<open>try\<close>, and sets an interval that calls it again every five seconds. The
  stream child gets a handler that logs its standard error and an \<^verbatim>\<open>exit\<close> handler that
  clears the interval; nothing listens for \<^verbatim>\<open>error\<close> on either child. The promise is
  never read and has no rejection handler: when the set-up raises, the rejection is
  unhandled, which ends the process (the default of Node since version 15, and no
  handler for unhandled rejections is installed). The preview directory exists since
  the constructor of the service, and the image that a preview command writes there is
  not tracked.
\<close>

definition generatePreview :: "string list \<Rightarrow> bool \<Rightarrow> world \<Rightarrow> world" where
  "generatePreview previewArgs spawn_ok w =
     (case spawn ''ffmpeg'' previewArgs spawn_ok w of
        (None, w1) \<Rightarrow> w1
      | (Some q, w1) \<Rightarrow> w1\<lparr>unlistened := q # unlistened w1\<rparr>)"

datatype setup5d_result = Setup5DFailed | Setup5DStarted "string list" "string list" bool

definition settle5D :: "nat \<Rightarrow> setup5d_result \<Rightarrow> world \<Rightarrow> world" where
  "settle5D i res w =
     (if i < length (pending5D w) then
        (let w1 = w\<lparr>pending5D := take i (pending5D w) @ drop (Suc i) (pending5D w)\<rparr>
         in case res of
              Setup5DFailed \<Rightarrow> w1\<lparr>crashed := True\<rparr>
            | Setup5DStarted args previewArgs preview_ok \<Rightarrow>
                (case spawn ''ffmpeg'' args True w1 of
                   (None, w2) \<Rightarrow> w2\<lparr>crashed := True\<rparr>
                 | (Some p, w2) \<Rightarrow>
                     (let w3 = generatePreview previewArgs preview_ok w2
                      in w3\<lparr>previewTimers := (p, previewArgs) # previewTimers w3,
                             unlistened := p # unlistened w3\<rparr>)))
      else w)"

text \<open>A tick of the preview interval of child \<open>p\<close>.\<close>

definition previewTick :: "nat \<Rightarrow> bool \<Rightarrow> world \<Rightarrow> world" where
  "previewTick p spawn_ok w =
     (case map_of (previewTimers w) p of
        None \<Rightarrow> w
      | Some previewArgs \<Rightarrow> generatePreview previewArgs spawn_ok w)"

text \<open>The state after the constructor of \<^verbatim>\<open>CameraStreamService\<close>.\<close>

definition initial_world :: "string set \<Rightarrow> world" where
  "initial_world fs =
     \<lparr>files = fs, mjpegProcess = None, mjpegUrl = None, alive = [], watched = [],
      unlistened = [], previewTimers = [], pendingR6 = [], pending5D = [], releasing = 0,
      crashed = False, nextPid = 0, trace = []\<rparr>"

text \<open>Everything that can happen to the stream service, one step at a time. After
  a crash nothing happens any more; the calls of the later sections are calls made
  by the living process.\<close>

datatype stream_op =
    CallStart "string option" "string option" "string option" bool
  | CallStop
  | ReleaseRuns bool
  | ReleaseR6 nat bool
  | SettleR6 nat r6_result
  | Settle5D nat setup5d_result
  | PreviewTick nat bool
  | StderrData nat string
  | ProcessError nat
  | ProcessExit nat
  | ProcessClose nat

fun step_op :: "stream_op \<Rightarrow> world \<Rightarrow> world" where
  "step_op (CallStart d t m ok) w = snd (startStream d t m ok w)"
| "step_op CallStop w = stopStream w"
| "step_op (ReleaseRuns ps_ok) w = releaseRuns ps_ok w"
| "step_op (ReleaseR6 i ps_ok) w = releaseR6 i ps_ok w"
| "step_op (SettleR6 i r) w = settleR6 i r w"
| "step_op (Settle5D i r) w = settle5D i r w"
| "step_op (PreviewTick p ok) w = previewTick p ok w"
| "step_op (StderrData p out) w = stderrData p out w"
| "step_op (ProcessError p) w = processError p w"
| "step_op (ProcessExit p) w = processExit p w"
| "step_op (ProcessClose p) w = processClose p w"

definition apply_op :: "stream_op \<Rightarrow> world \<Rightarrow> world" where
  "apply_op x w = (if crashed w then w else step_op x w)"

fun run_ops :: "stream_op list \<Rightarrow> world \<Rightarrow> world" where
  "run_ops [] w = w"
| "run_ops (x # xs) w = run_ops xs (apply_op x w)"

text \<open>The child processes that the service has a reference to.\<close>

definition recorded_children :: "world \<Rightarrow> nat list" where
  "recorded_children w =
     (case mjpegProcess w of Some (ChildProcess p) \<Rightarrow> [p] | _ \<Rightarrow> [])"

text \<open>The preview children that are running and have not been sent a signal: those
  spawned by the stream set-ups, which are the watched ones and the 5D stream
  children.\<close>

definition active_streams :: "world \<Rightarrow> nat list" where
  "active_streams w =
     filter (\<lambda>p. (p \<in> set (watched w) \<or> p \<in> fst ` set (previewTimers w)) \<and>
                 Killed p \<notin> set (trace w))
       (alive w)"

section \<open>Numbers in device paths\<close>

text \<open>
  \<^verbatim>\<open>parseInt(s)\<close> without a radix: leading white space is skipped, a sign is read, a
  \<^verbatim>\<open>0x\<close> prefix selects base 16, and the longest prefix of digits is the value; no digit
  gives \<^verbatim>\<open>NaN\<close>, here \<open>None\<close>. Device numbers are far below \<open>2^53\<close>, where JavaScript
  numbers are exact integers.
\<close>

definition is_js_space :: "char \<Rightarrow> bool" where
  "is_js_space c \<longleftrightarrow>
     c = CHR '' '' \<or> c = CHR 0x09 \<or> c = CHR 0x0A \<or> c = CHR 0x0B \<or> c = CHR 0x0C \<or> c = CHR 0x0D"

fun index_of :: "char \<Rightarrow> string \<Rightarrow> nat option" where
  "index_of c [] = None"
| "index_of c (x # xs) = (if c = x then Some 0 else map_option Suc (index_of c xs))"

definition digit_of :: "nat \<Rightarrow> char \<Rightarrow> nat option" where
  "digit_of radix c =
     (case index_of c ''0123456789abcdef'' of
        Some v \<Rightarrow> (if v < radix then Some v else None)
      | None \<Rightarrow>
          (case index_of c ''ABCDEF'' of
             Some v \<Rightarrow> (if radix = 16 then Some (v + 10) else None)
           | None \<Rightarrow> None))"

fun read_digits :: "nat \<Rightarrow> nat \<Rightarrow> string \<Rightarrow> nat" where
  "read_digits radix acc [] = acc"
| "read_digits radix acc (c # cs) =
     (case digit_of radix c of
        None \<Rightarrow> acc
      | Some v \<Rightarrow> read_digits radix (acc * radix + v) cs)"

definition parseInt :: "string \<Rightarrow> int option" where
  "parseInt s =
     (let s1 = dropWhile is_js_space s;
          neg = startsWith s1 ''-'';
          s2 = (if startsWith s1 ''-'' \<or> startsWith s1 ''+'' then tl s1 else s1);
          hex = (startsWith s2 ''0x'' \<or> startsWith s2 ''0X'');
          radix = (if hex then 16 else 10);
          s3 = (if hex then drop 2 s2 else s2)
      in case s3 of
           [] \<Rightarrow> None
         | c # cs \<Rightarrow>
             (case digit_of radix c of
                None \<Rightarrow> None
              | Some v \<Rightarrow>
                  Some ((if neg then - 1 else 1) * int (read_digits radix 0 s3))))"

text \<open>The decimal text of a number inside a template literal.\<close>

definition digit_char :: "nat \<Rightarrow> char" where
  "digit_char n = ''0123456789'' ! (n mod 10)"

function show_nat :: "nat \<Rightarrow> string" where
  "show_nat n = (if n < 10 then [digit_char n] else show_nat (n div 10) @ [digit_char n])"
  by pat_completeness auto
termination
  by (relation "measure id") auto

declare show_nat.simps [simp del]

definition show_number :: "int option \<Rightarrow> string" where
  "show_number x =
     (case x of
        None \<Rightarrow> ''NaN''
      | Some i \<Rightarrow> (if i < 0 then ''-'' @ show_nat (nat (- i)) else show_nat (nat i)))"

section \<open>The capture methods\<close>

text \<open>
  What the environment decides during one capture request. \<open>v4l2_info p\<close> is the
  outcome of \<^verbatim>\<open>v4l2-ctl --device=p --info\<close> (whether \<^verbatim>\<open>exec\<close> reported an error, and the
  standard output); \<open>dev_entries\<close> is \<^verbatim>\<open>fs.readdirSync('/dev')\<close>.

  \<^verbatim>\<open>captureWithR6\<close>, \<^verbatim>\<open>captureWith5D\<close> and \<^verbatim>\<open>captureV4L2PhotoFallback\<close> choose a device and
  arguments and run ffmpeg once; all that \<^verbatim>\<open>capturePhoto\<close> sees of them is what they
  report and whether ffmpeg left a file at the output path. Both are taken from the
  environment: \<open>specialized\<close> and \<open>fallback\<close>. A child process that never emits
  \<^verbatim>\<open>close\<close> or \<^verbatim>\<open>error\<close> leaves its promise pending for ever and is not modelled.

  \<open>ps_during_delay\<close> tells whether the \<^verbatim>\<open>ps\<close> of the \<^verbatim>\<open>releaseDevices\<close> call that
  \<^verbatim>\<open>stopStream\<close> starts answers while the standard method waits its 500 ms, and whether
  it succeeds; with \<open>None\<close> the answer comes after the method has returned.
\<close>

datatype method_report = Resolves bool | Rejects

text \<open>The capture child of the standard method: \<^verbatim>\<open>spawn\<close> raises, or the child emits
  \<^verbatim>\<open>error\<close>, or \<^verbatim>\<open>close\<close> with an exit code (having written the file or not), or \<^verbatim>\<open>error\<close>
  followed by \<^verbatim>\<open>close\<close> (a launch failure such as ENOENT).\<close>

datatype proc_outcome =
    SpawnThrew
  | ErrorEvent
  | Closed int bool
  | ErrorThenClosed int

record capture_env =
  cwd :: string
  now_iso :: string
  uuid :: string
  v4l2_info :: "string \<Rightarrow> bool \<times> string"
  dev_entries :: "js_error + string list"
  specialized :: "method_report \<times> bool"
  ffmpeg_outcome :: proc_outcome
  stream_spawn_ok :: bool
  fallback :: "bool \<times> bool"
  copy_ok :: bool
  ps_during_delay :: "bool option"

subsection \<open>capture/v4l2-capture.js\<close>

definition is_video_capture :: "bool \<times> string \<Rightarrow> bool" where
  "is_video_capture r = (\<not> fst r \<and> snd r \<noteq> [] \<and> js_includes (snd r) ''Video Capture'')"

fun find_capture_device :: "(string \<Rightarrow> bool \<times> string) \<Rightarrow> string \<Rightarrow> string list \<Rightarrow> string option" where
  "find_capture_device info captureDevice [] = None"
| "find_capture_device info captureDevice (device # rest) =
     (let devicePath = ''/dev/'' @ device in
      if devicePath = captureDevice then find_capture_device info captureDevice rest
      else if is_video_capture (info devicePath) then Some devicePath
      else find_capture_device info captureDevice rest)"

text \<open>The device the capture runs against: the bound device, unless it is a Video
  Output device and a capture device is found (the next number first, then any other
  entry of \<^verbatim>\<open>/dev\<close>). An exception of \<^verbatim>\<open>readdirSync\<close> is caught and keeps the device.\<close>

definition selectCaptureDevice :: "capture_env \<Rightarrow> string set \<Rightarrow> string \<Rightarrow> string" where
  "selectCaptureDevice env fs devicePath =
     (let out = snd (v4l2_info env devicePath);
          isOutput = (out \<noteq> [] \<and> js_includes out ''Video Output'')
      in if \<not> isOutput then devicePath
         else
           (let deviceNum = parseInt (replace_first devicePath ''/dev/video'' []);
                nextDevice = ''/dev/video'' @ show_number (map_option (\<lambda>n. n + 1) deviceNum);
                captureDevice =
                  (if nextDevice \<in> fs \<and> is_video_capture (v4l2_info env nextDevice)
                   then nextDevice else devicePath)
            in if captureDevice = devicePath then
                 (case dev_entries env of
                    Inl e \<Rightarrow> captureDevice
                  | Inr entries \<Rightarrow>
                      (case find_capture_device (v4l2_info env) captureDevice
                              (filter (\<lambda>d. startsWith d ''video'') entries) of
                         None \<Rightarrow> captureDevice
                       | Some p \<Rightarrow> p))
               else captureDevice))"

definition captureArgs :: "string \<Rightarrow> string \<Rightarrow> string list" where
  "captureArgs captureDevice localPath =
     [''-f'', ''v4l2'', ''-s'', ''4032x3024'', ''-i'', captureDevice, ''-frames:v'', ''1'',
      ''-q:v'', ''1'', ''-compression_level'', ''0'', localPath]"

text \<open>The three places that restart the stream all make this call.\<close>

definition restartStream :: "capture_env \<Rightarrow> bool \<Rightarrow> string \<Rightarrow> world \<Rightarrow> world" where
  "restartStream env streamer captureDevice w =
     (if streamer
      then snd (startStream (Some captureDevice) (Some ''canon'') (Some ''Canon Camera'')
                  (stream_spawn_ok env) w)
      else w)"

text \<open>The stream is stopped for the capture; the answer of \<^verbatim>\<open>ps\<close> may come during the
  delay that follows.\<close>

definition stopForCapture :: "capture_env \<Rightarrow> bool \<Rightarrow> world \<Rightarrow> world" where
  "stopForCapture env streamer w =
     (if streamer then psAnswers (ps_during_delay env) (stopStream w) else w)"

text \<open>The capture child is spawned; when its handlers run it has ended.\<close>

definition runCaptureChild :: "string list \<Rightarrow> bool \<Rightarrow> world \<Rightarrow> world" where
  "runCaptureChild args spawn_ok w =
     (case spawn ''ffmpeg'' args spawn_ok w of
        (None, w1) \<Rightarrow> w1
      | (Some p, w1) \<Rightarrow> w1\<lparr>alive := removeAll p (alive w1)\<rparr>)"

text \<open>
  \<^verbatim>\<open>captureV4L2Photo(localPath, devicePath, streamer)\<close>; \<open>streamer\<close> tells whether the
  stream service was passed. \<open>Inl\<close> is a rejected promise. The handlers of the capture
  child run in the order of its events; only the first \<^verbatim>\<open>resolve\<close> counts. One call is
  one step: apart from the answer of \<^verbatim>\<open>ps\<close>, what other children and other requests do
  while the method waits is taken before or after the call.
\<close>

definition captureV4L2Photo ::
  "capture_env \<Rightarrow> string \<Rightarrow> string option \<Rightarrow> bool \<Rightarrow> world \<Rightarrow> (js_error + bool) \<times> world" where
  "captureV4L2Photo env localPath devicePath streamer w =
     (if \<not> truthy devicePath then (Inl (Error ''No v4l2 device available for capture''), w)
      else
        (let captureDevice = selectCaptureDevice env (files w) (the devicePath);
             w1 = stopForCapture env streamer w;
             w2 = emit (Delay 500) w1;
             args = captureArgs captureDevice localPath
         in case ffmpeg_outcome env of
              SpawnThrew \<Rightarrow>
                (let w3 = runCaptureChild args False w2
                 in (Inl (Error ''spawn''), restartStream env streamer captureDevice w3))
            | ErrorEvent \<Rightarrow>
                (let w3 = runCaptureChild args True w2
                 in (Inr False, restartStream env streamer captureDevice w3))
            | Closed code wrote \<Rightarrow>
                (let w3 = runCaptureChild args True w2;
                     w4 = (if wrote then w3\<lparr>files := insert localPath (files w3)\<rparr> else w3)
                 in (Inr (code = 0), restartStream env streamer captureDevice w4))
            | ErrorThenClosed code \<Rightarrow>
                (let w3 = runCaptureChild args True w2;
                     w4 = restartStream env streamer captureDevice w3
                 in (Inr False, restartStream env streamer captureDevice w4))))"

subsection \<open>capture/mock-capture.js\<close>

text \<open>\<^verbatim>\<open>path.join\<close> of the working directory, an absolute normalised path, and a
  relative path without dots.\<close>

definition path_join :: "string \<Rightarrow> string \<Rightarrow> string" where
  "path_join dir rel = (if dir \<noteq> [] \<and> last dir = CHR ''/'' then dir @ rel else dir @ ''/'' @ rel)"

definition mockImage :: "capture_env \<Rightarrow> string" where
  "mockImage env = path_join (cwd env) ''public/mock_images/sample2.jpg''"

text \<open>\<^verbatim>\<open>useMockImage\<close>: an exception of \<^verbatim>\<open>copyFileSync\<close> is caught and reported as
  \<^verbatim>\<open>false\<close>.\<close>

definition useMockImage :: "capture_env \<Rightarrow> string \<Rightarrow> world \<Rightarrow> bool \<times> world" where
  "useMockImage env localPath w =
     (if mockImage env \<in> files w then
        (if copy_ok env
         then (True, emit (Copied (mockImage env) localPath)
                       (w\<lparr>files := insert localPath (files w)\<rparr>))
         else (False, w))
      else (False, w))"

subsection \<open>camera-capture.service.js\<close>

datatype capture_result = Success string string | Failure

definition capture_filename :: "capture_env \<Rightarrow> string" where
  "capture_filename env =
     map (\<lambda>c. if c = CHR '':'' \<or> c = CHR ''.'' then CHR ''-'' else c) (now_iso env)
       @ ''_'' @ uuid env @ ''.jpg''"

definition capture_path :: "capture_env \<Rightarrow> string" where
  "capture_path env = path_join (path_join (cwd env) ''temp_captures'') (capture_filename env)"

text \<open>The test for the R6 reads \<^verbatim>\<open>devicePath.includes\<close> only when the model name is
  truthy, names no R6 and the type is \<^verbatim>\<open>'canon'\<close>; a \<^verbatim>\<open>null\<close> device path raises there.\<close>

definition isCanonR6 :: "string option \<Rightarrow> string option \<Rightarrow> string option \<Rightarrow> js_error + bool" where
  "isCanonR6 devicePath cameraType cameraModel =
     (case cameraModel of
        None \<Rightarrow> Inr False
      | Some m \<Rightarrow>
          if m = [] then Inr False
          else if js_includes m ''R6 Mark II'' \<or> js_includes m ''R6'' then Inr True
          else if cameraType = Some ''canon'' then
            (case devicePath of
               None \<Rightarrow> Inl TypeError
             | Some d \<Rightarrow> Inr (js_includes d ''/dev/video1''))
          else Inr False)"

definition isCanon5D :: "string option \<Rightarrow> bool" where
  "isCanon5D cameraModel =
     (case cameraModel of
        None \<Rightarrow> False
      | Some m \<Rightarrow>
          m \<noteq> [] \<and> (js_includes m ''5D Mark IV'' \<or> js_includes m ''EOS 5D'' \<or> js_includes m ''5D''))"

definition add_file :: "bool \<Rightarrow> string \<Rightarrow> world \<Rightarrow> world" where
  "add_file wrote localPath w = (if wrote then w\<lparr>files := insert localPath (files w)\<rparr> else w)"

text \<open>The specialised call sits in its own \<^verbatim>\<open>try\<close>; a rejection leaves
  \<^verbatim>\<open>captureSuccess\<close> false.\<close>

definition specializedCapture :: "capture_env \<Rightarrow> string \<Rightarrow> world \<Rightarrow> bool \<times> world" where
  "specializedCapture env localPath w =
     (case fst (specialized env) of Resolves b \<Rightarrow> b | Rejects \<Rightarrow> False,
      add_file (snd (specialized env)) localPath w)"

definition fallbackCapture :: "capture_env \<Rightarrow> string \<Rightarrow> world \<Rightarrow> bool \<times> world" where
  "fallbackCapture env localPath w =
     (fst (fallback env), add_file (snd (fallback env)) localPath w)"

text \<open>
  \<^verbatim>\<open>capturePhoto\<close>. Everything is inside one \<^verbatim>\<open>try\<close>: an exception of the R6 test or a
  rejection of the standard method goes to the \<^verbatim>\<open>catch\<close>, which returns the failure
  result at once.
\<close>

definition capturePhoto ::
  "capture_env \<Rightarrow> string option \<Rightarrow> string option \<Rightarrow> string option \<Rightarrow> bool \<Rightarrow> world
     \<Rightarrow> capture_result \<times> world" where
  "capturePhoto env devicePath cameraType cameraModel streamer w =
     (let filename = capture_filename env;
          localPath = capture_path env
      in case isCanonR6 devicePath cameraType cameraModel of
           Inl e \<Rightarrow> (Failure, w)
         | Inr r6 \<Rightarrow>
             (let (s1, w1) = (if r6 \<or> isCanon5D cameraModel
                              then specializedCapture env localPath w else (False, w));
                  (r2, w2) = (if \<not> s1 then captureV4L2Photo env localPath devicePath streamer w1
                              else (Inr s1, w1))
              in case r2 of
                   Inl e \<Rightarrow> (Failure, w2)
                 | Inr s2 \<Rightarrow>
                     (let (s3, w3) = (if \<not> s2 then fallbackCapture env localPath w2
                                      else (s2, w2));
                          (s4, w4) = (if \<not> s3 then useMockImage env localPath w3
                                      else (s3, w3))
                      in if localPath \<notin> files w4 then (Failure, w4)
                         else (Success localPath filename, w4))))"

section \<open>Outcomes of the capture chain\<close>

text \<open>The specialised method ran and reported success.\<close>

definition specialized_succeeds ::
  "capture_env \<Rightarrow> string option \<Rightarrow> string option \<Rightarrow> string option \<Rightarrow> bool" where
  "specialized_succeeds env devicePath cameraType cameraModel \<longleftrightarrow>
     (isCanonR6 devicePath cameraType cameraModel = Inr True \<or> isCanon5D cameraModel) \<and>
     fst (specialized env) = Resolves True"

text \<open>An exception reaches the \<^verbatim>\<open>catch\<close> of \<^verbatim>\<open>capturePhoto\<close>: the R6 test raises, or the
  standard method runs and rejects (no device path, or \<^verbatim>\<open>spawn\<close> raises).\<close>

definition chain_raises ::
  "capture_env \<Rightarrow> string option \<Rightarrow> string option \<Rightarrow> string option \<Rightarrow> bool" where
  "chain_raises env devicePath cameraType cameraModel \<longleftrightarrow>
     isCanonR6 devicePath cameraType cameraModel = Inl TypeError \<or>
     (\<not> specialized_succeeds env devicePath cameraType cameraModel \<and>
      (\<not> truthy devicePath \<or> ffmpeg_outcome env = SpawnThrew))"

text \<open>The standard method fails without raising: it resolves with \<^verbatim>\<open>false\<close>.\<close>

definition standard_resolves_false :: "proc_outcome \<Rightarrow> bool" where
  "standard_resolves_false outcome =
     (case outcome of
        SpawnThrew \<Rightarrow> False
      | ErrorEvent \<Rightarrow> True
      | Closed code wrote \<Rightarrow> code \<noteq> 0
      | ErrorThenClosed code \<Rightarrow> True)"

text \<open>The standard method fails: it resolves with \<^verbatim>\<open>false\<close> or rejects.\<close>

definition standard_fails :: "proc_outcome \<Rightarrow> bool" where
  "standard_fails outcome = (case outcome of Closed code wrote \<Rightarrow> code \<noteq> 0 | _ \<Rightarrow> True)"

section \<open>The capture controller\<close>

text \<open>
  \<^verbatim>\<open>controllers/camera/capture-controller.js\<close>: the two module variables, read and
  written by every request. Times are milliseconds as \<^verbatim>\<open>Date.now()\<close> gives them.
\<close>

record capture_gate =
  activeCaptureOperations :: int
  lastCaptureAttempt :: int

definition MAX_CAPTURE_OPERATIONS :: int where
  "MAX_CAPTURE_OPERATIONS = 1"

definition CAPTURE_COOLDOWN_MS :: int where
  "CAPTURE_COOLDOWN_MS = 5000"

definition initial_gate :: capture_gate where
  "initial_gate = \<lparr>activeCaptureOperations = 0, lastCaptureAttempt = 0\<rparr>"

text \<open>The two checks at the head of the handler, and the update of the trackers when
  both pass. \<open>False\<close> is the answer 429.\<close>

definition capture_admit :: "int \<Rightarrow> capture_gate \<Rightarrow> bool \<times> capture_gate" where
  "capture_admit now g =
     (if activeCaptureOperations g \<ge> MAX_CAPTURE_OPERATIONS then (False, g)
      else if now - lastCaptureAttempt g < CAPTURE_COOLDOWN_MS then (False, g)
      else (True, g\<lparr>lastCaptureAttempt := now,
                     activeCaptureOperations := activeCaptureOperations g + 1\<rparr>))"

definition cleanupCapture :: "capture_gate \<Rightarrow> capture_gate" where
  "cleanupCapture g = g\<lparr>activeCaptureOperations := max 0 (activeCaptureOperations g - 1)\<rparr>"

text \<open>
  The handler \<^verbatim>\<open>exports.capturePhoto\<close>. Everything after the registration of the clean-up
  (the AWS probe, \<^verbatim>\<open>cameraService.capturePhoto\<close>, the stream restart, the SMS) is the
  parameter \<open>pipeline\<close>, which turns the world into an HTTP status and a new world.
\<close>

definition capturePhoto_handler ::
  "int \<Rightarrow> (world \<Rightarrow> nat \<times> world) \<Rightarrow> capture_gate \<times> world \<Rightarrow> nat \<times> capture_gate \<times> world" where
  "capturePhoto_handler now pipeline gw =
     (case capture_admit now (fst gw) of
        (False, g) \<Rightarrow> (429, g, snd gw)
      | (True, g) \<Rightarrow> (case pipeline (snd gw) of (status, w) \<Rightarrow> (status, g, w)))"

text \<open>
  A history of the controller: requests, the moments at which the awaited
  \<^verbatim>\<open>cameraService.capturePhoto\<close> of an accepted request settles, and the \<^verbatim>\<open>finish\<close> and
  \<^verbatim>\<open>close\<close> events of the responses of accepted requests, each of which runs
  \<^verbatim>\<open>cleanupCapture\<close>. A response finishes after its capture has settled; it can close
  earlier, when the client gives up the connection. A capture is complete when its
  response has finished.
\<close>

datatype gate_event = Request int | Settled int | Finish int | Close int

text \<open>The module variables at the end of a history.\<close>

fun gate_after :: "gate_event list \<Rightarrow> capture_gate \<Rightarrow> capture_gate" where
  "gate_after [] g = g"
| "gate_after (Request now # es) g = gate_after es (snd (capture_admit now g))"
| "gate_after (Settled t # es) g = gate_after es g"
| "gate_after (Finish t # es) g = gate_after es (cleanupCapture g)"
| "gate_after (Close t # es) g = gate_after es (cleanupCapture g)"

fun is_response_event :: "gate_event \<Rightarrow> bool" where
  "is_response_event (Finish t) = True"
| "is_response_event (Close t) = True"
| "is_response_event e = False"

text \<open>
  \<open>accepted_requests\<close> lists the accepted requests of a history in order, each with
  the time at which the latest response had finished before it and the time of the
  latest accepted request before it.
\<close>

fun accepted_requests ::
  "gate_event list \<Rightarrow> capture_gate \<Rightarrow> int option \<Rightarrow> int option \<Rightarrow> (int \<times> int option \<times> int option) list" where
  "accepted_requests [] g completed accepted = []"
| "accepted_requests (Request now # es) g completed accepted =
     (case capture_admit now g of
        (True, g') \<Rightarrow> (now, completed, accepted) # accepted_requests es g' completed (Some now)
      | (False, g') \<Rightarrow> accepted_requests es g' completed accepted)"
| "accepted_requests (Settled t # es) g completed accepted =
     accepted_requests es g completed accepted"
| "accepted_requests (Finish t # es) g completed accepted =
     accepted_requests es (cleanupCapture g) (Some t) accepted"
| "accepted_requests (Close t # es) g completed accepted =
     accepted_requests es (cleanupCapture g) completed accepted"

text \<open>The cooldown as the specification words it: measured from the completion of
  the previous capture.\<close>

definition cooldown_since_completion :: "gate_event list \<Rightarrow> bool" where
  "cooldown_since_completion es \<longleftrightarrow>
     (\<forall>(now, completed, accepted) \<in> set (accepted_requests es initial_gate None None).
        case completed of None \<Rightarrow> True | Some t \<Rightarrow> now - t \<ge> CAPTURE_COOLDOWN_MS)"

text \<open>
  \<open>captures_running\<close> lists the accepted requests of a history, each with the number
  of accepted captures that had not settled when it was accepted.
\<close>

fun captures_running :: "gate_event list \<Rightarrow> capture_gate \<Rightarrow> nat \<Rightarrow> (int \<times> nat) list" where
  "captures_running [] g running = []"
| "captures_running (Request now # es) g running =
     (case capture_admit now g of
        (True, g') \<Rightarrow> (now, running) # captures_running es g' (Suc running)
      | (False, g') \<Rightarrow> captures_running es g' running)"
| "captures_running (Settled t # es) g running = captures_running es g (running - 1)"
| "captures_running (Finish t # es) g running = captures_running es (cleanupCapture g) running"
| "captures_running (Close t # es) g running = captures_running es (cleanupCapture g) running"

text \<open>One capture at a time, as the specification words it: no request is accepted
  while an accepted capture is running.\<close>

definition one_capture_in_flight :: "gate_event list \<Rightarrow> bool" where
  "one_capture_in_flight es \<longleftrightarrow>
     (\<forall>(now, running) \<in> set (captures_running es initial_gate 0). running = 0)"

section \<open>The restart controller\<close>

text \<open>The status controller in \<^verbatim>\<open>controllers/camera.controller.js\<close>: \<^verbatim>\<open>restartInProgress\<close> and
  \<^verbatim>\<open>recentRestarts\<close>.\<close>

record restart_gate =
  restartInProgress :: bool
  recentRestarts :: "int list"

definition RESTART_COOLDOWN_PERIOD :: int where
  "RESTART_COOLDOWN_PERIOD = 10000"

definition MAX_RECENT_RESTARTS :: nat where
  "MAX_RECENT_RESTARTS = 3"

definition initial_restart_gate :: restart_gate where
  "initial_restart_gate = \<lparr>restartInProgress = False, recentRestarts = []\<rparr>"

text \<open>
  \<^verbatim>\<open>restartCameraServices\<close>: the status sent, whether \<^verbatim>\<open>processRestartInBackground\<close> was
  started, and the new variables. The check of \<^verbatim>\<open>restartInProgress\<close> comes first and
  leaves the list as it is.
\<close>

definition restartCameraServices :: "int \<Rightarrow> restart_gate \<Rightarrow> nat \<times> bool \<times> restart_gate" where
  "restartCameraServices now g =
     (if restartInProgress g then (429, False, g)
      else
        (let recent = filter (\<lambda>time. now - time < RESTART_COOLDOWN_PERIOD) (recentRestarts g)
         in if length recent \<ge> MAX_RECENT_RESTARTS
            then (429, False, g\<lparr>recentRestarts := recent\<rparr>)
            else (202, True, g\<lparr>recentRestarts := recent @ [now], restartInProgress := True\<rparr>)))"

text \<open>The \<^verbatim>\<open>finally\<close> of \<^verbatim>\<open>processRestartInBackground\<close>.\<close>

definition restartFinished :: "restart_gate \<Rightarrow> restart_gate" where
  "restartFinished g = g\<lparr>restartInProgress := False\<rparr>"

datatype restart_event = RestartRequest int | BackgroundDone

text \<open>A history of the restart controller: the variables at its end, and the times
  of the requests whose restart was executed, in order.\<close>

fun restart_run :: "restart_event list \<Rightarrow> restart_gate \<times> int list \<Rightarrow> restart_gate \<times> int list" where
  "restart_run [] s = s"
| "restart_run (RestartRequest now # es) (g, executed) =
     (case restartCameraServices now g of
        (status, started, g') \<Rightarrow>
          restart_run es (g', if started then executed @ [now] else executed))"
| "restart_run (BackgroundDone # es) (g, executed) =
     restart_run es (restartFinished g, executed)"

fun request_times :: "restart_event list \<Rightarrow> int list" where
  "request_times [] = []"
| "request_times (RestartRequest now # es) = now # request_times es"
| "request_times (BackgroundDone # es) = request_times es"

section \<open>The camera service\<close>

text \<open>\<^verbatim>\<open>services/camera/index.js\<close>: the identity of the bound camera and the
  service's own copies of the stream references.\<close>

record camera_service =
  cameraConnected :: bool
  cameraType :: "string option"
  cameraModel :: "string option"
  v4l2Device :: "string option"
  serviceProcess :: "handle option"
  serviceUrl :: "string option"

text \<open>What \<^verbatim>\<open>detector.detectCamera()\<close> resolves with.\<close>

record detection =
  detected :: bool
  device :: "string option"
  dtype :: "string option"
  model :: "string option"

text \<open>\<^verbatim>\<open>checkCameraAvailability\<close>: a rejection of the detector is caught and counts as
  no camera; the identity is overwritten only when a camera is detected.\<close>

definition checkCameraAvailability ::
  "js_error + detection \<Rightarrow> camera_service \<Rightarrow> bool \<times> camera_service" where
  "checkCameraAvailability result cs =
     (case result of
        Inl e \<Rightarrow> (False, cs)
      | Inr r \<Rightarrow>
          if detected r
          then (True, cs\<lparr>v4l2Device := device r, cameraType := dtype r, cameraModel := model r\<rparr>)
          else (False, cs))"

definition startCameraStream :: "bool \<Rightarrow> camera_service \<times> world \<Rightarrow> camera_service \<times> world" where
  "startCameraStream spawn_ok s =
     (case s of (cs, w) \<Rightarrow>
        if \<not> truthy (v4l2Device cs) then (cs, w)
        else (case startStream (v4l2Device cs) (cameraType cs) (cameraModel cs) spawn_ok w of
                (streamResult, w') \<Rightarrow>
                  (cs\<lparr>serviceProcess := fst streamResult, serviceUrl := snd streamResult\<rparr>, w')))"

definition stopCameraStream :: "camera_service \<times> world \<Rightarrow> camera_service \<times> world" where
  "stopCameraStream s =
     (case s of (cs, w) \<Rightarrow> (cs\<lparr>serviceProcess := None, serviceUrl := None\<rparr>, stopStream w))"

text \<open>\<^verbatim>\<open>checkCameraReconnection\<close>, one poll cycle: the detector's answer and the outcome
  of a \<^verbatim>\<open>spawn\<close> in this cycle come from the environment.\<close>

definition checkCameraReconnection ::
  "js_error + detection \<Rightarrow> bool \<Rightarrow> camera_service \<times> world \<Rightarrow> bool \<times> camera_service \<times> world" where
  "checkCameraReconnection result spawn_ok s =
     (case s of (cs0, w) \<Rightarrow>
        (let previouslyConnected = cameraConnected cs0;
             previousCameraType = cameraType cs0;
             previousCameraModel = cameraModel cs0;
             previousDevice = v4l2Device cs0;
             (cameraAvailable, cs) = checkCameraAvailability result cs0
         in if \<not> previouslyConnected \<and> cameraAvailable then
              (True, startCameraStream spawn_ok (cs\<lparr>cameraConnected := True\<rparr>, w))
            else if previouslyConnected \<and> \<not> cameraAvailable then
              (False, stopCameraStream (cs\<lparr>cameraConnected := False\<rparr>, w))
            else if previouslyConnected \<and> cameraAvailable \<and>
                    (previousDevice \<noteq> v4l2Device cs \<or>
                     previousCameraType \<noteq> cameraType cs \<or>
                     previousCameraModel \<noteq> cameraModel cs) then
              (True, startCameraStream spawn_ok (stopCameraStream (cs, w)))
            else (cameraAvailable, cs, w)))"

text \<open>The calls to the stream service that a trace records.\<close>

fun is_stream_call :: "event \<Rightarrow> bool" where
  "is_stream_call (StartStreamCalled d t m) = True"
| "is_stream_call StopStreamCalled = True"
| "is_stream_call e = False"

definition stream_calls :: "world \<Rightarrow> event list" where
  "stream_calls w = filter is_stream_call (trace w)"

section \<open>The device manager\<close>

text \<open>
  \<^verbatim>\<open>verifyDevice\<close> of \<^verbatim>\<open>device-manager.service.js\<close>. The environment gives the platform,
  the result of \<^verbatim>\<open>fs.statSync(devicePath).isCharacterDevice()\<close> (or its exception), and what
  becomes of the child \<^verbatim>\<open>v4l2-ctl --device devicePath --info\<close>: \<^verbatim>\<open>spawn\<close> raises, the child
  emits \<^verbatim>\<open>error\<close>, or \<^verbatim>\<open>close\<close> with an exit code after writing to its standard output
  and standard error. The call of \<^verbatim>\<open>detectCanonR6\<close> is not awaited and has its own
  \<^verbatim>\<open>try\<close>; it sets the polling mode of the manager and is left out.
\<close>

datatype introspection =
    SpawnRaised
  | EmittedError
  | ClosedWith int string string

record verify_env =
  platform :: string
  isCharacterDevice :: "string \<Rightarrow> js_error + bool"
  v4l2_ctl :: "string \<Rightarrow> introspection"

text \<open>The body of the \<^verbatim>\<open>try\<close> block; \<open>Inl\<close> is an exception that leaves it.\<close>

definition verifyDevice_body :: "verify_env \<Rightarrow> string set \<Rightarrow> string option \<Rightarrow> js_error + bool" where
  "verifyDevice_body env fs devicePath =
     (case devicePath of
        None \<Rightarrow> Inr False
      | Some p \<Rightarrow>
          if p \<notin> fs then Inr False
          else (case isCharacterDevice env p of
                  Inl e \<Rightarrow> Inl e
                | Inr chr \<Rightarrow>
                    if \<not> chr then Inr False
                    else (case v4l2_ctl env p of
                            SpawnRaised \<Rightarrow> Inr False
                          | EmittedError \<Rightarrow> Inr False
                          | ClosedWith code output err \<Rightarrow>
                              if code = 0 \<and> \<not> js_includes err ''failed'' \<and> \<not> js_includes err ''error''
                              then Inr (js_includes output ''Video Capture'' \<or>
                                        js_includes output ''Video Output'')
                              else Inr False)))"

definition verifyDevice :: "verify_env \<Rightarrow> string set \<Rightarrow> string option \<Rightarrow> js_error + bool" where
  "verifyDevice env fs devicePath =
     (if platform env \<noteq> ''linux'' then Inr True
      else (case verifyDevice_body env fs devicePath of
              Inl e \<Rightarrow> Inr False
            | Inr b \<Rightarrow> Inr b))"

text \<open>The introspection of a path fails when the command cannot be launched, exits
  with a code other than 0, or writes an error to its standard error.\<close>

definition introspection_fails :: "introspection \<Rightarrow> bool" where
  "introspection_fails r =
     (case r of
        SpawnRaised \<Rightarrow> True
      | EmittedError \<Rightarrow> True
      | ClosedWith code output err \<Rightarrow>
          code \<noteq> 0 \<or> js_includes err ''failed'' \<or> js_includes err ''error'')"

section \<open>Reading a trace\<close>

text \<open>The launches of child processes that a trace records.\<close>

fun is_spawn :: "event \<Rightarrow> bool" where
  "is_spawn (Spawned cmd args r) = True"
| "is_spawn e = False"

section \<open>Concrete runs\<close>

text \<open>
  A webcam is streamed and stopped, and \<^verbatim>\<open>ps\<close> answers; the webcam is streamed again;
  then the \<^verbatim>\<open>close\<close> event of the first child arrives, and \<^verbatim>\<open>startStream\<close> is called
  once more.
\<close>

definition late_close_session :: "stream_op list" where
  "late_close_session =
     [CallStart (Some ''/dev/video0'') (Some ''webcam'') (Some ''USB Webcam'') True,
      CallStop,
      ReleaseRuns True,
      CallStart (Some ''/dev/video0'') (Some ''webcam'') (Some ''USB Webcam'') True,
      ProcessClose 0,
      CallStart (Some ''/dev/video0'') (Some ''webcam'') (Some ''USB Webcam'') True]"

definition webcam_stream_args :: "string list" where
  "webcam_stream_args =
     [''-f'', ''v4l2'', ''-framerate'', ''15'', ''-video_size'', ''640x480'',
      ''-i'', ''/dev/video0'', ''-c:v'', ''mjpeg'', ''-q:v'', ''5'', ''-f'', ''mpjpeg'',
      ''-r'', ''15'', ''-'']"

text \<open>
  A Canon EOS R6 on \<^verbatim>\<open>/dev/video1\<close>: \<^verbatim>\<open>startStream\<close> is called twice before the first
  set-up has settled; both set-ups release the devices, find \<^verbatim>\<open>/dev/video1\<close> and spawn
  their command.
\<close>

definition r6_stream_args :: "string list" where
  "r6_stream_args =
     [''-f'', ''v4l2'', ''-input_format'', ''mjpeg'', ''-video_size'', ''1280x720'',
      ''-framerate'', ''15'', ''-i'', ''/dev/video1'', ''-c:v'', ''mjpeg'', ''-q:v'', ''5'',
      ''-f'', ''mpjpeg'', ''-r'', ''15'', ''-'']"

definition r6_double_start_session :: "stream_op list" where
  "r6_double_start_session =
     [CallStart (Some ''/dev/video1'') (Some ''canon'') (Some ''Canon EOS R6'') True,
      CallStart (Some ''/dev/video1'') (Some ''canon'') (Some ''Canon EOS R6'') True,
      ReleaseR6 0 True,
      ReleaseR6 1 True,
      SettleR6 0 (R6Started r6_stream_args),
      SettleR6 0 (R6Started r6_stream_args)]"

text \<open>A Canon EOS 5D Mark IV is streamed, and its set-up settles with a child.\<close>

definition eos5d_stream_args :: "string list" where
  "eos5d_stream_args =
     [''-loglevel'', ''warning'', ''-f'', ''v4l2'', ''-video_size'', ''800x600'',
      ''-i'', ''/dev/video0'', ''-c:v'', ''mjpeg'', ''-q:v'', ''5'', ''-r'', ''12'',
      ''-f'', ''mpjpeg'', ''pipe:1'']"

definition eos5d_preview_args :: "string list" where
  "eos5d_preview_args =
     [''-f'', ''v4l2'', ''-video_size'', ''800x600'', ''-i'', ''/dev/video0'',
      ''-frames:v'', ''1'', ''-update'', ''1'', ''/app/public/stream/preview/preview.jpg'']"

definition eos5d_session :: "stream_op list" where
  "eos5d_session =
     [CallStart (Some ''/dev/video0'') (Some ''canon'') (Some ''Canon EOS 5D Mark IV'') True,
      Settle5D 0 (Setup5DStarted eos5d_stream_args eos5d_preview_args True)]"

text \<open>
  A webcam bound to \<^verbatim>\<open>/dev/video0\<close>, which is the Video Output side of a loopback pair
  whose capture side is \<^verbatim>\<open>/dev/video1\<close>; ffmpeg exits with code 1 and writes nothing.
\<close>

definition loopback_info :: "string \<Rightarrow> bool \<times> string" where
  "loopback_info p =
     (if p = ''/dev/video0'' then (False, ''Device Caps: Video Output'')
      else if p = ''/dev/video1'' then (False, ''Device Caps: Video Capture'')
      else (True, []))"

definition loopback_env :: capture_env where
  "loopback_env =
     \<lparr>cwd = ''/app'', now_iso = ''2024-05-01T10:00:00.000Z'', uuid = ''u1'',
      v4l2_info = loopback_info, dev_entries = Inr [''video0'', ''video1''],
      specialized = (Resolves False, False), ffmpeg_outcome = Closed 1 False,
      stream_spawn_ok = True, fallback = (False, False), copy_ok = True,
      ps_during_delay = Some True\<rparr>"

definition loopback_files :: "string set" where
  "loopback_files = {''/dev/video0'', ''/dev/video1'', ''/app/public/mock_images/sample2.jpg''}"

text \<open>The world in which the webcam of that pair is being streamed: the state that
  \<^verbatim>\<open>startStream\<close> leaves when called on the fresh service.\<close>

definition loopback_world :: world where
  "loopback_world =
     \<lparr>files = loopback_files,
      mjpegProcess = Some (ChildProcess 0),
      mjpegUrl = Some mjpeg_url,
      alive = [0],
      watched = [0],
      unlistened = [],
      previewTimers = [],
      pendingR6 = [],
      pending5D = [],
      releasing = 0,
      crashed = False,
      nextPid = 1,
      trace =
        [StartStreamCalled (Some ''/dev/video0'') (Some ''webcam'') (Some ''USB Webcam''),
         Spawned ''ffmpeg''
           [''-f'', ''v4l2'', ''-framerate'', ''15'', ''-video_size'', ''640x480'',
            ''-i'', ''/dev/video0'', ''-c:v'', ''mjpeg'', ''-q:v'', ''5'', ''-f'', ''mpjpeg'',
            ''-r'', ''15'', ''-'']
           (Some 0)]\<rparr>"

text \<open>The same webcam, and ffmpeg cannot be spawned for the capture.\<close>

definition spawn_failure_env :: capture_env where
  "spawn_failure_env = loopback_env\<lparr>ffmpeg_outcome := SpawnThrew\<rparr>"

text \<open>The same webcam, and the placeholder cannot be copied.\<close>

definition copy_failure_env :: capture_env where
  "copy_failure_env = loopback_env\<lparr>copy_ok := False\<rparr>"

text \<open>A Canon R6 whose specialised capture leaves a file and exits with an error, after
  which ffmpeg cannot be spawned for the standard capture.\<close>

definition r6_partial_env :: capture_env where
  "r6_partial_env = loopback_env\<lparr>specialized := (Resolves False, True),
                                 ffmpeg_outcome := SpawnThrew\<rparr>"

text \<open>The same webcam; ffmpeg writes the file and exits with code 1, and the
  placeholder cannot be copied.\<close>

definition nonzero_exit_env :: capture_env where
  "nonzero_exit_env = loopback_env\<lparr>ffmpeg_outcome := Closed 1 True, copy_ok := False\<rparr>"

text \<open>The same webcam; ffmpeg exits with code 0 and writes nothing.\<close>

definition empty_success_env :: capture_env where
  "empty_success_env = loopback_env\<lparr>ffmpeg_outcome := Closed 0 False\<rparr>"

text \<open>A capture is accepted at 10000 and its response finishes at 14000; the next
  request comes at 15500.\<close>

definition slow_capture_history :: "gate_event list" where
  "slow_capture_history =
     [Request 10000, Settled 13900, Finish 14000, Close 14000, Request 15500]"

text \<open>A capture is accepted at 10000; the client gives up the connection at 10100,
  while the capture is running; the next request comes at 15000, and the first capture
  settles at 16000.\<close>

definition abandoned_capture_history :: "gate_event list" where
  "abandoned_capture_history = [Request 10000, Close 10100, Request 15000, Settled 16000]"

text \<open>The module variables after a capture was accepted at 10000, and what follows:
  a request at 12000, and the capture settles at 13000. Its response has not finished
  when the next request comes.\<close>

definition busy_gate :: capture_gate where
  "busy_gate = \<lparr>activeCaptureOperations = 1, lastCaptureAttempt = 10000\<rparr>"

definition waiting_more :: "gate_event list" where
  "waiting_more = [Request 12000, Settled 13000]"

definition spaced_capture_history :: "gate_event list" where
  "spaced_capture_history =
     [Request 10000, Settled 10900, Finish 11000, Close 11000, Request 16000]"

text \<open>Three restarts, each finished before the next is requested.\<close>

definition three_restarts :: "restart_event list" where
  "three_restarts =
     [RestartRequest 1000, BackgroundDone, RestartRequest 2000, BackgroundDone,
      RestartRequest 3000, BackgroundDone]"

text \<open>A disconnected camera service, and the answers of the detector in three poll
  cycles: a webcam on \<^verbatim>\<open>/dev/video0\<close>, nothing, the webcam on \<^verbatim>\<open>/dev/video2\<close>.\<close>

definition idle_service :: camera_service where
  "idle_service =
     \<lparr>cameraConnected = False, cameraType = None, cameraModel = None, v4l2Device = None,
      serviceProcess = None, serviceUrl = None\<rparr>"

definition webcam_at :: "string \<Rightarrow> detection" where
  "webcam_at p =
     \<lparr>detected = True, device = Some p, dtype = Some ''webcam'', model = Some ''USB Webcam''\<rparr>"

definition nothing_detected :: detection where
  "nothing_detected = \<lparr>detected = False, device = None, dtype = None, model = None\<rparr>"

text \<open>
  A webcam on \<^verbatim>\<open>/dev/video5\<close> was connected and streamed; then a poll cycle in which the
  detector failed disconnected the service and stopped the stream. The service keeps
  the device path, so a capture request is still served: the standard method ran
  against \<^verbatim>\<open>/dev/video5\<close> and restarted the stream when its child had exited. The
  service is disconnected and a stream process is recorded.
\<close>

definition video5_info :: "string \<Rightarrow> bool \<times> string" where
  "video5_info p =
     (if p = ''/dev/video5'' then (False, ''Device Caps: Video Capture'') else (True, []))"

definition video5_env :: capture_env where
  "video5_env = loopback_env\<lparr>v4l2_info := video5_info, dev_entries := Inr [''video5'']\<rparr>"

definition stale_service :: camera_service where
  "stale_service =
     \<lparr>cameraConnected = False, cameraType = Some ''webcam'', cameraModel = Some ''USB Webcam'',
      v4l2Device = Some ''/dev/video5'', serviceProcess = None, serviceUrl = None\<rparr>"

definition stale_world :: world where
  "stale_world =
     \<lparr>files = {''/dev/video5''},
      mjpegProcess = Some (ChildProcess 2),
      mjpegUrl = Some mjpeg_url,
      alive = [0, 2],
      watched = [2, 0],
      unlistened = [],
      previewTimers = [],
      pendingR6 = [],
      pending5D = [],
      releasing = 1,
      crashed = False,
      nextPid = 3,
      trace =
        [StartStreamCalled (Some ''/dev/video5'') (Some ''webcam'') (Some ''USB Webcam''),
         Spawned ''ffmpeg''
           (mjpegArgs ''/dev/video5'' (Some ''webcam'') (Some ''USB Webcam'')) (Some 0),
         StopStreamCalled, Killed 0, ReleaseDevices,
         StopStreamCalled, ReleaseDevices, Killed 0, Delay 500,
         Spawned ''ffmpeg'' (captureArgs ''/dev/video5'' ''/app/public/photos/p.jpg'') (Some 1),
         StartStreamCalled (Some ''/dev/video5'') (Some ''canon'') (Some ''Canon Camera''),
         Spawned ''ffmpeg''
           (mjpegArgs ''/dev/video5'' (Some ''canon'') (Some ''Canon Camera'')) (Some 2)]\<rparr>"

text \<open>Three poll cycles from there: the webcam is detected on \<^verbatim>\<open>/dev/video0\<close>, then
  nothing is detected, then the webcam is detected on \<^verbatim>\<open>/dev/video2\<close>.\<close>

definition stale_cycle1 :: "bool \<times> camera_service \<times> world" where
  "stale_cycle1 =
     checkCameraReconnection (Inr (webcam_at ''/dev/video0'')) True (stale_service, stale_world)"

definition stale_cycle2 :: "bool \<times> camera_service \<times> world" where
  "stale_cycle2 = checkCameraReconnection (Inr nothing_detected) True (snd stale_cycle1)"

definition stale_cycle3 :: "bool \<times> camera_service \<times> world" where
  "stale_cycle3 =
     checkCameraReconnection (Inr (webcam_at ''/dev/video2'')) True (snd stale_cycle2)"

text \<open>
  A Canon camera in v4l2 mode is detected on \<^verbatim>\<open>/dev/video1\<close> by a disconnected service
  with a fresh stream service, and is gone in the next poll cycle. The stream set-up
  that the first cycle started takes the R6 path; it releases the devices before the
  second cycle, finds that \<^verbatim>\<open>/dev/video2\<close> is a capture device, and spawns its command
  after the second cycle.
\<close>

definition canon_at :: "string \<Rightarrow> detection" where
  "canon_at p =
     \<lparr>detected = True, device = Some p, dtype = Some ''canon'',
      model = Some ''Canon Camera (v4l2 mode)''\<rparr>"

definition video2_stream_args :: "string list" where
  "video2_stream_args =
     [''-f'', ''v4l2'', ''-video_size'', ''1280x720'', ''-framerate'', ''15'',
      ''-i'', ''/dev/video2'', ''-c:v'', ''mjpeg'', ''-q:v'', ''5'', ''-f'', ''mpjpeg'',
      ''-r'', ''15'', ''-'']"

definition canon_cycle1 :: "bool \<times> camera_service \<times> world" where
  "canon_cycle1 =
     checkCameraReconnection (Inr (canon_at ''/dev/video1'')) True
       (idle_service, initial_world {})"

definition canon_cycle2 :: "bool \<times> camera_service \<times> world" where
  "canon_cycle2 =
     checkCameraReconnection (Inr nothing_detected) True
       (fst (snd canon_cycle1), releaseR6 0 True (snd (snd canon_cycle1)))"

definition canon_settled :: world where
  "canon_settled =
     run_ops [ReleaseRuns True, SettleR6 0 (R6Started video2_stream_args)]
       (snd (snd canon_cycle2))"

text \<open>A host that is not Linux, and a Linux host on which \<^verbatim>\<open>v4l2-ctl\<close> exits with 1.\<close>

definition mac_env :: verify_env where
  "mac_env =
     \<lparr>platform = ''darwin'', isCharacterDevice = (\<lambda>p. Inr True),
      v4l2_ctl = (\<lambda>p. ClosedWith 1 [] ''Cannot open device'')\<rparr>"

definition linux_env :: verify_env where
  "linux_env = mac_env\<lparr>platform := ''linux''\<rparr>"

section \<open>Properties of the stream service\<close>

text \<open>A \<^verbatim>\<open>startStream\<close> call made while a process is recorded returns the recorded
  references and changes nothing: the trace gains the record of the call, and no
  \<open>Spawned\<close> event.\<close>

lemma startStream_recorded:
  "mjpegProcess w \<noteq> None \<Longrightarrow>
     startStream d t m ok w = ((mjpegProcess w, mjpegUrl w), emit (StartStreamCalled d t m) w)"
  by (simp add: startStream_def Let_def emit_def)

lemma recorded_children_le_1: "length (recorded_children w) \<le> 1"
  by (simp add: recorded_children_def split: option.splits handle.splits)

text \<open>
  C3 fails on the code. The service has one field for the process, so it never records
  more than one child, but the recorded child is not the only preview stream that
  runs.

  A webcam is streamed (child 0) and stopped, and streamed again (child 1). The
  \<^verbatim>\<open>close\<close> event of child 0 arrives after that: its handler runs the \<^verbatim>\<open>onStreamEnd\<close>
  callback, which clears the reference, although the reference is to child 1 by now.
  The next \<^verbatim>\<open>startStream\<close> finds no process recorded and spawns child 2. Children 1 and
  2 both run and neither has been sent a signal; only child 2 is recorded, and a
  \<^verbatim>\<open>stopStream\<close> that follows sends its signal to child 2 alone.

  On the R6 path the same happens without any \<^verbatim>\<open>close\<close> event, because the set-up is
  asynchronous: two \<^verbatim>\<open>startStream\<close> calls made before the first set-up has settled both
  pass the test of the recorded process, and both set-ups spawn a child. The second
  child runs and is never recorded.
\<close>

theorem C3_two_preview_streams:
  "recorded_children (run_ops late_close_session (initial_world {})) = [2] \<and>
   active_streams (run_ops late_close_session (initial_world {})) = [1, 2] \<and>
   Spawned ''ffmpeg'' webcam_stream_args (Some 1)
     \<in> set (trace (run_ops late_close_session (initial_world {}))) \<and>
   Spawned ''ffmpeg'' webcam_stream_args (Some 2)
     \<in> set (trace (run_ops late_close_session (initial_world {}))) \<and>
   Killed 1 \<notin> set (trace (stopStream (run_ops late_close_session (initial_world {})))) \<and>
   Killed 2 \<in> set (trace (stopStream (run_ops late_close_session (initial_world {})))) \<and>
   recorded_children (run_ops r6_double_start_session (initial_world {})) = [0] \<and>
   active_streams (run_ops r6_double_start_session (initial_world {})) = [0, 1] \<and>
   Spawned ''ffmpeg'' r6_stream_args (Some 0)
     \<in> set (trace (run_ops r6_double_start_session (initial_world {}))) \<and>
   Spawned ''ffmpeg'' r6_stream_args (Some 1)
     \<in> set (trace (run_ops r6_double_start_session (initial_world {}))) \<and>
   Killed 1 \<notin> set (trace (stopStream (run_ops r6_double_start_session (initial_world {}))))"
  by code_simp

section \<open>Properties of the standard capture method\<close>

lemma trace_emit: "trace (emit e w) = trace w @ [e]"
  by (simp add: emit_def)

lemma watchdog_on_watched_child:
  assumes "p \<in> set (watched w)"
    and "js_includes out ''No such device'' \<or> js_includes out ''Device or resource busy''"
  shows "stderrData p out w = (emit (Killed p) w)\<lparr>mjpegProcess := None, mjpegUrl := None\<rparr>"
  using assms by (simp add: stderrData_def onStreamEnd_def)

lemma trace_stopStream:
  "trace (stopStream w) =
     trace w @ StopStreamCalled #
       (case mjpegProcess w of Some (ChildProcess p) \<Rightarrow> [Killed p] | _ \<Rightarrow> []) @ [ReleaseDevices]"
  by (simp add: stopStream_def Let_def emit_def split: option.splits handle.splits)

lemma files_stopStream: "files (stopStream w) = files w"
  by (simp add: stopStream_def Let_def emit_def split: option.splits handle.splits)

lemma alive_stopStream: "alive (stopStream w) = alive w"
  by (simp add: stopStream_def Let_def emit_def split: option.splits handle.splits)

lemma releasing_stopStream: "releasing (stopStream w) = Suc (releasing w)"
  by (simp add: stopStream_def Let_def emit_def split: option.splits handle.splits)

text \<open>When \<^verbatim>\<open>ps\<close> answers during the delay, every running ffmpeg child is sent a
  signal.\<close>

lemma trace_psAnswers_stopStream:
  "trace (psAnswers ps (stopStream w)) =
     trace (stopStream w) @ (if ps = Some True then map Killed (alive w) else [])"
  by (simp add: psAnswers_def releaseRuns_def releaseDevices_signals_def
      releasing_stopStream alive_stopStream split: option.splits)

lemma trace_stopForCapture:
  "trace (stopForCapture env True w) =
     trace (stopStream w) @
       (if ps_during_delay env = Some True then map Killed (alive w) else [])"
  by (simp add: stopForCapture_def trace_psAnswers_stopStream)

lemma files_psAnswers: "files (psAnswers ps w) = files w"
  by (simp add: psAnswers_def releaseRuns_def releaseDevices_signals_def split: option.splits)

lemma files_stopForCapture: "files (stopForCapture env s w) = files w"
  by (simp add: stopForCapture_def files_psAnswers files_stopStream)

lemma trace_runCaptureChild:
  "trace (runCaptureChild args ok w) =
     trace w @ [Spawned ''ffmpeg'' args (if ok then Some (nextPid w) else None)]"
  by (simp add: runCaptureChild_def spawn_def emit_def)

lemma files_runCaptureChild: "files (runCaptureChild args ok w) = files w"
  by (simp add: runCaptureChild_def spawn_def emit_def)

lemma trace_setupMjpegStream:
  "\<exists>es. trace (snd (setupMjpegStream d t m ok w)) = trace w @ es \<and>
        (\<forall>e \<in> set es. \<not> is_stream_call e)"
  by (auto simp: setupMjpegStream_def spawn_def emit_def setupStreamErrorHandling_def
      split: option.splits)

lemma trace_startStream:
  "\<exists>es. trace (snd (startStream d t m ok w)) = trace w @ StartStreamCalled d t m # es \<and>
        (\<forall>e \<in> set es. \<not> is_stream_call e)"
proof -
  let ?w = "emit (StartStreamCalled d t m) w"
  obtain es where es: "trace (snd (setupMjpegStream d t m ok ?w)) = trace ?w @ es"
    "\<forall>e \<in> set es. \<not> is_stream_call e"
    using trace_setupMjpegStream [of d t m ok ?w] by blast
  have std: "trace (case setupMjpegStream d t m ok ?w of
                     (r, w2) \<Rightarrow> w2\<lparr>mjpegProcess := fst r, mjpegUrl := snd r\<rparr>)
               = trace w @ StartStreamCalled d t m # es"
    using es(1) by (simp add: emit_def split_beta)
  consider (idle) "mjpegProcess w \<noteq> None \<or> \<not> truthy d"
    | (r6) "mjpegProcess w = None" "truthy d" "isR6 (the d) t m"
    | (eos5d) "mjpegProcess w = None" "truthy d" "\<not> isR6 (the d) t m" "is5D m"
    | (standard) "mjpegProcess w = None" "truthy d" "\<not> isR6 (the d) t m" "\<not> is5D m"
    by blast
  then show ?thesis
  proof cases
    case idle
    then have "trace (snd (startStream d t m ok w)) = trace w @ StartStreamCalled d t m # []"
      by (auto simp: startStream_def Let_def emit_def)
    then show ?thesis
      by (intro exI [of _ "[]"]) simp
  next
    case r6
    then have "trace (snd (startStream d t m ok w))
                 = trace w @ StartStreamCalled d t m # [ReleaseDevices]"
      by (simp add: startStream_def Let_def emit_def)
    then show ?thesis
      by (intro exI [of _ "[ReleaseDevices]"]) simp
  next
    case eos5d
    then have "trace (snd (startStream d t m ok w)) = trace w @ StartStreamCalled d t m # []"
      by (simp add: startStream_def Let_def emit_def setupStreamErrorHandling_def)
    then show ?thesis
      by (intro exI [of _ "[]"]) simp
  next
    case standard
    then have "trace (snd (startStream d t m ok w)) = trace w @ StartStreamCalled d t m # es"
      using std by (simp add: startStream_def Let_def emit_def)
    then show ?thesis
      using es(2) by blast
  qed
qed

lemma files_startStream: "files (snd (startStream d t m ok w)) = files w"
  by (auto simp: startStream_def Let_def emit_def setupStreamErrorHandling_def
      setupMjpegStream_def spawn_def split: option.splits prod.splits)

lemma trace_restartStream:
  "\<exists>es. trace (restartStream env True dev w)
          = trace w @ StartStreamCalled (Some dev) (Some ''canon'') (Some ''Canon Camera'') # es \<and>
        (\<forall>e \<in> set es. \<not> is_stream_call e)"
  using trace_startStream [of "Some dev" "Some ''canon''" "Some ''Canon Camera''"
      "stream_spawn_ok env" w]
  by (simp add: restartStream_def)

lemma files_restartStream: "files (restartStream env s dev w) = files w"
  by (simp add: restartStream_def files_startStream)

text \<open>The trace of one run of the standard method, for every outcome of the capture
  child.\<close>

lemma trace_captureV4L2Photo:
  assumes "truthy devicePath"
  shows "\<exists>r es.
     trace (snd (captureV4L2Photo env localPath devicePath True w))
       = trace (stopForCapture env True w) @
         [Delay 500,
          Spawned ''ffmpeg''
            (captureArgs (selectCaptureDevice env (files w) (the devicePath)) localPath) r,
          StartStreamCalled (Some (selectCaptureDevice env (files w) (the devicePath)))
            (Some ''canon'') (Some ''Canon Camera'')] @ es \<and>
     (\<forall>e \<in> set es. is_stream_call e \<longrightarrow>
        e = StartStreamCalled (Some (selectCaptureDevice env (files w) (the devicePath)))
              (Some ''canon'') (Some ''Canon Camera''))"
proof -
  let ?dev = "selectCaptureDevice env (files w) (the devicePath)"
  let ?call = "StartStreamCalled (Some ?dev) (Some ''canon'') (Some ''Canon Camera'')"
  let ?w2 = "emit (Delay 500) (stopForCapture env True w)"
  let ?pid = "Some (nextPid (stopForCapture env True w))"
  have one: "\<exists>es. trace (restartStream env True ?dev v) = trace v @ ?call # es \<and>
                 (\<forall>e \<in> set es. \<not> is_stream_call e)" for v
    by (rule trace_restartStream)
  show ?thesis
  proof (cases "ffmpeg_outcome env")
    case SpawnThrew
    let ?w3 = "runCaptureChild (captureArgs ?dev localPath) False ?w2"
    obtain es where "trace (restartStream env True ?dev ?w3) = trace ?w3 @ ?call # es"
      "\<forall>e \<in> set es. \<not> is_stream_call e"
      using one [of ?w3] by blast
    then show ?thesis
      using assms SpawnThrew
      by (intro exI [of _ None] exI [of _ es])
        (simp add: captureV4L2Photo_def Let_def trace_runCaptureChild emit_def)
  next
    case ErrorEvent
    let ?w3 = "runCaptureChild (captureArgs ?dev localPath) True ?w2"
    obtain es where "trace (restartStream env True ?dev ?w3) = trace ?w3 @ ?call # es"
      "\<forall>e \<in> set es. \<not> is_stream_call e"
      using one [of ?w3] by blast
    then show ?thesis
      using assms ErrorEvent
      by (intro exI [of _ ?pid] exI [of _ es])
        (simp add: captureV4L2Photo_def Let_def trace_runCaptureChild emit_def)
  next
    case (Closed code wrote)
    let ?w3 = "runCaptureChild (captureArgs ?dev localPath) True ?w2"
    let ?w4 = "if wrote then ?w3\<lparr>files := insert localPath (files ?w3)\<rparr> else ?w3"
    obtain es where "trace (restartStream env True ?dev ?w4) = trace ?w4 @ ?call # es"
      "\<forall>e \<in> set es. \<not> is_stream_call e"
      using one [of ?w4] by blast
    then show ?thesis
      using assms Closed
      by (intro exI [of _ ?pid] exI [of _ es])
        (cases wrote; simp add: captureV4L2Photo_def Let_def trace_runCaptureChild emit_def)
  next
    case (ErrorThenClosed code)
    let ?w3 = "runCaptureChild (captureArgs ?dev localPath) True ?w2"
    let ?w4 = "restartStream env True ?dev ?w3"
    obtain es where es: "trace ?w4 = trace ?w3 @ ?call # es"
      "\<forall>e \<in> set es. \<not> is_stream_call e"
      using one [of ?w3] by blast
    obtain es' where es': "trace (restartStream env True ?dev ?w4) = trace ?w4 @ ?call # es'"
      "\<forall>e \<in> set es'. \<not> is_stream_call e"
      using one [of ?w4] by blast
    show ?thesis
      using assms ErrorThenClosed es es'
      by (intro exI [of _ ?pid] exI [of _ "es @ ?call # es'"])
        (auto simp: captureV4L2Photo_def Let_def trace_runCaptureChild emit_def)
  qed
qed

text \<open>
  C8. In the standard capture method, called with a device path and with the stream
  service, the stream is stopped first: \<^verbatim>\<open>stopStream\<close> is called, the recorded preview
  child, if there is one, is sent SIGTERM, and \<^verbatim>\<open>releaseDevices\<close> is started, which sends
  SIGTERM to every running ffmpeg child if its \<^verbatim>\<open>ps\<close> answers during the delay. Then the
  delay of 500 ms is waited, then the capture child is launched, and the next action
  after the launch is the call that restarts the stream. This holds for every outcome
  of the capture child: a synchronous exception of \<^verbatim>\<open>spawn\<close>, an \<^verbatim>\<open>error\<close> event, and
  \<^verbatim>\<open>close\<close> with any exit code.
\<close>

theorem C8_stop_delay_capture_restart:
  assumes "truthy devicePath"
  shows "\<exists>r after.
     trace (snd (captureV4L2Photo env localPath devicePath True w))
       = trace w @ StopStreamCalled #
         (case mjpegProcess w of Some (ChildProcess p) \<Rightarrow> [Killed p] | _ \<Rightarrow> []) @
         [ReleaseDevices] @
         (if ps_during_delay env = Some True then map Killed (alive w) else []) @
         [Delay 500,
          Spawned ''ffmpeg''
            (captureArgs (selectCaptureDevice env (files w) (the devicePath)) localPath) r,
          StartStreamCalled (Some (selectCaptureDevice env (files w) (the devicePath)))
            (Some ''canon'') (Some ''Canon Camera'')] @ after"
proof -
  obtain r es where
    "trace (snd (captureV4L2Photo env localPath devicePath True w))
       = trace (stopForCapture env True w) @
         [Delay 500,
          Spawned ''ffmpeg''
            (captureArgs (selectCaptureDevice env (files w) (the devicePath)) localPath) r,
          StartStreamCalled (Some (selectCaptureDevice env (files w) (the devicePath)))
            (Some ''canon'') (Some ''Canon Camera'')] @ es"
    using trace_captureV4L2Photo [OF assms, of env localPath w] by blast
  then show ?thesis
    by (intro exI [of _ r] exI [of _ es])
      (simp add: trace_stopForCapture trace_stopStream)
qed

lemma loopback_world_reached:
  "snd (startStream (Some ''/dev/video0'') (Some ''webcam'') (Some ''USB Webcam'') True
          (initial_world loopback_files)) = loopback_world"
  by code_simp

lemma loopback_capture_trace:
  "drop (length (trace loopback_world))
     (trace (snd (captureV4L2Photo loopback_env ''/app/out.jpg'' (Some ''/dev/video0'') True
                    loopback_world)))
   = [StopStreamCalled, Killed 0, ReleaseDevices, Killed 0, Delay 500,
      Spawned ''ffmpeg'' (captureArgs ''/dev/video1'' ''/app/out.jpg'') (Some 1),
      StartStreamCalled (Some ''/dev/video1'') (Some ''canon'') (Some ''Canon Camera''),
      ReleaseDevices]"
  by code_simp

lemma loopback_capture_device:
  "selectCaptureDevice loopback_env (files loopback_world) ''/dev/video0'' = ''/dev/video1''"
  by code_simp

lemma loopback_capture_result:
  "fst (captureV4L2Photo loopback_env ''/app/out.jpg'' (Some ''/dev/video0'') True
          loopback_world) = Inr False"
  by code_simp

lemma loopback_world_stream:
  "mjpegProcess loopback_world = Some (ChildProcess 0) \<and> alive loopback_world = [0] \<and>
   ps_during_delay loopback_env = Some True"
  by (simp add: loopback_world_def loopback_env_def)

theorem C8_witness:
  "truthy (Some ''/dev/video0'') \<and>
   fst (captureV4L2Photo loopback_env ''/app/out.jpg'' (Some ''/dev/video0'') True
          loopback_world) = Inr False \<and>
   (\<exists>r after.
      trace (snd (captureV4L2Photo loopback_env ''/app/out.jpg'' (Some ''/dev/video0'') True
                    loopback_world))
        = trace loopback_world @
          [StopStreamCalled, Killed 0, ReleaseDevices, Killed 0, Delay 500,
           Spawned ''ffmpeg'' (captureArgs ''/dev/video1'' ''/app/out.jpg'') r,
           StartStreamCalled (Some ''/dev/video1'') (Some ''canon'') (Some ''Canon Camera'')]
          @ after)"
proof -
  have t: "truthy (Some ''/dev/video0'')"
    by simp
  show ?thesis
    using t loopback_capture_result
      C8_stop_delay_capture_restart [OF t, of loopback_env "''/app/out.jpg''" loopback_world]
    by (simp add: loopback_capture_device loopback_world_stream)
qed

text \<open>
  C10. In every run of the standard capture method that is given a device path and
  the stream service, the stream is restarted by the call
  \<^verbatim>\<open>startStream(captureDevice, 'canon', 'Canon Camera')\<close>, where \<^verbatim>\<open>captureDevice\<close> is the
  device selected during the attempt, and the method makes no other \<^verbatim>\<open>startStream\<close> call.
  The camera type and model that were bound before the capture are not arguments of the
  method, so the call carries them only if they happen to be these two constants.
\<close>

theorem C10_restart_with_fixed_identity:
  assumes "truthy devicePath"
  shows "StartStreamCalled (Some (selectCaptureDevice env (files w) (the devicePath)))
           (Some ''canon'') (Some ''Canon Camera'')
           \<in> set (drop (length (trace w))
                     (trace (snd (captureV4L2Photo env localPath devicePath True w)))) \<and>
         (\<forall>d t m. StartStreamCalled d t m
                     \<in> set (drop (length (trace w))
                              (trace (snd (captureV4L2Photo env localPath devicePath True w))))
            \<longrightarrow> d = Some (selectCaptureDevice env (files w) (the devicePath)) \<and>
                t = Some ''canon'' \<and> m = Some ''Canon Camera'')"
proof -
  let ?call = "StartStreamCalled (Some (selectCaptureDevice env (files w) (the devicePath)))
                 (Some ''canon'') (Some ''Canon Camera'')"
  obtain r es where tr:
    "trace (snd (captureV4L2Photo env localPath devicePath True w))
       = trace (stopForCapture env True w) @
         [Delay 500,
          Spawned ''ffmpeg''
            (captureArgs (selectCaptureDevice env (files w) (the devicePath)) localPath) r,
          ?call] @ es"
    and es: "\<forall>e \<in> set es. is_stream_call e \<longrightarrow> e = ?call"
    using trace_captureV4L2Photo [OF assms, of env localPath w] by blast
  have new: "drop (length (trace w))
               (trace (snd (captureV4L2Photo env localPath devicePath True w)))
             = StopStreamCalled #
               (case mjpegProcess w of Some (ChildProcess p) \<Rightarrow> [Killed p] | _ \<Rightarrow> []) @
               [ReleaseDevices] @
               (if ps_during_delay env = Some True then map Killed (alive w) else []) @
               [Delay 500,
                Spawned ''ffmpeg''
                  (captureArgs (selectCaptureDevice env (files w) (the devicePath)) localPath) r,
                ?call] @ es"
    by (simp add: tr trace_stopForCapture trace_stopStream)
  have other: "StartStreamCalled d t m \<in> set es \<Longrightarrow> StartStreamCalled d t m = ?call" for d t m
    using es by fastforce
  show ?thesis
    unfolding new using other
    by (auto split: option.splits handle.splits)
qed

theorem C10_witness:
  "truthy (Some ''/dev/video0'') \<and>
   StartStreamCalled (Some ''/dev/video1'') (Some ''canon'') (Some ''Canon Camera'')
     \<in> set (drop (length (trace loopback_world))
               (trace (snd (captureV4L2Photo loopback_env ''/app/out.jpg''
                              (Some ''/dev/video0'') True loopback_world)))) \<and>
   StartStreamCalled (Some ''/dev/video0'') (Some ''webcam'') (Some ''USB Webcam'')
     \<notin> set (drop (length (trace loopback_world))
               (trace (snd (captureV4L2Photo loopback_env ''/app/out.jpg''
                              (Some ''/dev/video0'') True loopback_world))))"
proof -
  have t: "truthy (Some ''/dev/video0'')"
    by simp
  show ?thesis
    using t
      C10_restart_with_fixed_identity [OF t, of loopback_env loopback_world "''/app/out.jpg''"]
    by (auto simp: loopback_capture_device)
qed

text \<open>
  C9. The handlers of \<^verbatim>\<open>setupStreamErrorHandling\<close> are never installed on the preview
  child of a Canon 5D: \<^verbatim>\<open>startStream\<close> records the promise of \<^verbatim>\<open>createMjpegStream\<close> as the
  process and calls \<^verbatim>\<open>setupErrorHandling\<close> on the promise, which raises. When the child
  then writes \<^verbatim>\<open>No such device\<close> to its standard error, no signal is sent and the recorded
  process and URL stay as they are.
\<close>

theorem C9_5D_preview_child_unwatched:
  "mjpegProcess (run_ops eos5d_session (initial_world {})) = Some Promise5D \<and>
   mjpegUrl (run_ops eos5d_session (initial_world {})) = Some mjpeg_url \<and>
   Spawned ''ffmpeg'' eos5d_stream_args (Some 0)
     \<in> set (trace (run_ops eos5d_session (initial_world {}))) \<and>
   js_includes ''[video4linux2] /dev/video0: No such device'' ''No such device'' \<and>
   stderrData 0 ''[video4linux2] /dev/video0: No such device''
       (run_ops eos5d_session (initial_world {}))
     = run_ops eos5d_session (initial_world {}) \<and>
   Killed 0 \<notin> set (trace (stderrData 0 ''[video4linux2] /dev/video0: No such device''
                             (run_ops eos5d_session (initial_world {}))))"
  by code_simp

section \<open>Properties of the capture chain\<close>

lemma isCanonR6_error: "isCanonR6 d t m = Inl e \<Longrightarrow> e = TypeError"
  by (auto simp: isCanonR6_def split: option.splits if_splits)

lemma isCanonR6_truthy: "truthy d \<Longrightarrow> isCanonR6 d t m \<noteq> Inl e"
  by (cases d) (auto simp: isCanonR6_def split: option.splits if_splits)

lemma captureV4L2Photo_rejects:
  "(\<exists>e. fst (captureV4L2Photo env lp d s w) = Inl e)
     \<longleftrightarrow> \<not> truthy d \<or> ffmpeg_outcome env = SpawnThrew"
  by (cases "ffmpeg_outcome env") (auto simp: captureV4L2Photo_def Let_def)

lemma captureV4L2Photo_resolves_false:
  "truthy d \<Longrightarrow> standard_resolves_false (ffmpeg_outcome env) \<Longrightarrow>
     fst (captureV4L2Photo env lp d s w) = Inr False"
  by (cases "ffmpeg_outcome env")
    (auto simp: captureV4L2Photo_def Let_def standard_resolves_false_def)

lemma files_spawn: "files (snd (spawn cmd args ok w)) = files w"
  by (simp add: spawn_def emit_def)

lemma files_emit: "files (emit e w) = files w"
  by (simp add: emit_def)

lemma files_captureV4L2Photo: "files w \<subseteq> files (snd (captureV4L2Photo env lp d s w))"
  by (cases "ffmpeg_outcome env")
    (auto simp: captureV4L2Photo_def Let_def files_restartStream files_runCaptureChild
      files_emit files_stopForCapture)

lemma files_add_file: "files w \<subseteq> files (add_file b lp w)"
  by (auto simp: add_file_def)

text \<open>What the standard method reports and what it leaves on disk.\<close>

lemma fst_captureV4L2Photo:
  "truthy d \<Longrightarrow>
     fst (captureV4L2Photo env lp d s w) =
       (case ffmpeg_outcome env of
          SpawnThrew \<Rightarrow> Inl (Error ''spawn'')
        | ErrorEvent \<Rightarrow> Inr False
        | Closed code wrote \<Rightarrow> Inr (code = 0)
        | ErrorThenClosed code \<Rightarrow> Inr False)"
  by (cases "ffmpeg_outcome env") (simp_all add: captureV4L2Photo_def Let_def)

lemma files_captureV4L2Photo_eq:
  "files (snd (captureV4L2Photo env lp d s w)) =
     (case ffmpeg_outcome env of
        Closed code wrote \<Rightarrow> if truthy d \<and> wrote then insert lp (files w) else files w
      | _ \<Rightarrow> files w)"
  by (cases "ffmpeg_outcome env")
    (simp_all add: captureV4L2Photo_def Let_def files_restartStream files_runCaptureChild
      files_emit files_stopForCapture)

lemma webcam_is_plain:
  "isCanonR6 (Some ''/dev/video0'') (Some ''webcam'') (Some ''USB Webcam'') = Inr False"
  "\<not> isCanon5D (Some ''USB Webcam'')"
  by code_simp+

lemma loopback_env_fields:
  "specialized loopback_env = (Resolves False, False)"
  "ffmpeg_outcome loopback_env = Closed 1 False"
  "fallback loopback_env = (False, False)"
  "copy_ok loopback_env"
  by (simp_all add: loopback_env_def)

text \<open>The chain up to and including the fallback, when all three methods fail without
  raising: the mock method is reached, in a world that still has the placeholder.\<close>

lemma capturePhoto_reaches_mock:
  assumes dev: "truthy devicePath"
    and spec: "fst (specialized env) \<noteq> Resolves True"
    and std: "standard_resolves_false (ffmpeg_outcome env)"
    and fb: "\<not> fst (fallback env)"
  shows "\<exists>w3. files w \<subseteq> files w3 \<and>
           capturePhoto env devicePath ty mdl streamer w =
             (let (s4, w4) = useMockImage env (capture_path env) w3
              in if capture_path env \<notin> files w4 then (Failure, w4)
                 else (Success (capture_path env) (capture_filename env), w4))"
proof -
  obtain r6 where r6: "isCanonR6 devicePath ty mdl = Inr r6"
    using isCanonR6_truthy [OF dev, of ty mdl]
    by (cases "isCanonR6 devicePath ty mdl") auto
  let ?lp = "capture_path env"
  let ?w1 = "if r6 \<or> isCanon5D mdl then add_file (snd (specialized env)) ?lp w else w"
  have s1: "(if r6 \<or> isCanon5D mdl then specializedCapture env ?lp w else (False, w))
              = (False, ?w1)"
    using spec by (cases "fst (specialized env)") (auto simp: specializedCapture_def)
  obtain w2 where s2: "captureV4L2Photo env ?lp devicePath streamer ?w1 = (Inr False, w2)"
    using captureV4L2Photo_resolves_false [OF dev std, of ?lp streamer ?w1]
    by (cases "captureV4L2Photo env ?lp devicePath streamer ?w1") auto
  have w2: "files ?w1 \<subseteq> files w2"
    using files_captureV4L2Photo [of ?w1 env ?lp devicePath streamer] s2 by simp
  obtain w3 where s3: "fallbackCapture env ?lp w2 = (False, w3)"
    and w3: "files w2 \<subseteq> files w3"
    using fb files_add_file [of w2 "snd (fallback env)" ?lp]
    by (simp add: fallbackCapture_def)
  have sub: "files w \<subseteq> files w3"
  proof -
    have "files w \<subseteq> files ?w1"
      using files_add_file by simp
    also have "\<dots> \<subseteq> files w2"
      by (rule w2)
    also have "\<dots> \<subseteq> files w3"
      by (rule w3)
    finally show ?thesis .
  qed
  have "capturePhoto env devicePath ty mdl streamer w =
          (let (s4, w4) = useMockImage env ?lp w3
           in if ?lp \<notin> files w4 then (Failure, w4)
              else (Success ?lp (capture_filename env), w4))"
    by (simp add: capturePhoto_def r6 s1 s2 s3) (simp add: Let_def)
  then show ?thesis
    using sub by blast
qed

text \<open>
  C1, as the code has it. In a capture request with a device path in which the
  specialised method (where it applies) returns false or raises, the standard method
  resolves with false and the fallback returns false: if the placeholder exists and
  copying it raises nothing, the mock method copies it to the output path and
  \<^verbatim>\<open>capturePhoto\<close> returns the success result with that path.
\<close>

theorem C1_mock_absorbs_failures:
  assumes "truthy devicePath"
    and "fst (specialized env) \<noteq> Resolves True"
    and "standard_resolves_false (ffmpeg_outcome env)"
    and "\<not> fst (fallback env)"
    and "mockImage env \<in> files w"
    and "copy_ok env"
  shows "fst (capturePhoto env devicePath ty mdl streamer w)
           = Success (capture_path env) (capture_filename env) \<and>
         capture_path env
           \<in> files (snd (capturePhoto env devicePath ty mdl streamer w)) \<and>
         Copied (mockImage env) (capture_path env)
           \<in> set (trace (snd (capturePhoto env devicePath ty mdl streamer w)))"
proof -
  obtain w3 where sub: "files w \<subseteq> files w3"
    and eq: "capturePhoto env devicePath ty mdl streamer w =
               (let (s4, w4) = useMockImage env (capture_path env) w3
                in if capture_path env \<notin> files w4 then (Failure, w4)
                   else (Success (capture_path env) (capture_filename env), w4))"
    using capturePhoto_reaches_mock [OF assms(1-4)] by blast
  have "mockImage env \<in> files w3"
    using sub assms(5) by blast
  then show ?thesis
    using assms(6) by (simp add: eq useMockImage_def emit_def)
qed

lemma loopback_world_files: "files loopback_world = loopback_files"
  by (simp add: loopback_world_def)

theorem C1_witness:
  "truthy (Some ''/dev/video0'') \<and>
   fst (specialized loopback_env) \<noteq> Resolves True \<and>
   standard_resolves_false (ffmpeg_outcome loopback_env) \<and>
   \<not> fst (fallback loopback_env) \<and>
   mockImage loopback_env \<in> files loopback_world \<and>
   copy_ok loopback_env \<and>
   fst (capturePhoto loopback_env (Some ''/dev/video0'') (Some ''webcam'') (Some ''USB Webcam'')
          True loopback_world)
     = Success (capture_path loopback_env) (capture_filename loopback_env) \<and>
   Copied (mockImage loopback_env) (capture_path loopback_env)
     \<in> set (trace (snd (capturePhoto loopback_env (Some ''/dev/video0'') (Some ''webcam'')
                           (Some ''USB Webcam'') True loopback_world)))"
proof -
  have h1: "truthy (Some ''/dev/video0'')"
    by simp
  have h2: "fst (specialized loopback_env) \<noteq> Resolves True"
    by (simp add: loopback_env_def)
  have h3: "standard_resolves_false (ffmpeg_outcome loopback_env)"
    by (simp add: loopback_env_def standard_resolves_false_def)
  have h4: "\<not> fst (fallback loopback_env)"
    by (simp add: loopback_env_def)
  have h5: "mockImage loopback_env \<in> files loopback_world"
    by (simp add: loopback_world_files loopback_files_def mockImage_def loopback_env_def
        path_join_def)
  have h6: "copy_ok loopback_env"
    by (simp add: loopback_env_def)
  show ?thesis
    using h1 h2 h3 h4 h5 h6
      C1_mock_absorbs_failures [OF h1 h2 h3 h4 h5 h6, of "Some ''webcam''" "Some ''USB Webcam''" True]
    by simp
qed

text \<open>
  C1 as the specification words it fails, in two ways. The placeholder exists and all
  three methods fail, the standard one by rejecting because ffmpeg cannot be spawned:
  the rejection reaches the \<^verbatim>\<open>catch\<close> of \<^verbatim>\<open>capturePhoto\<close>, neither the fallback nor the
  mock method runs, and the result is the failure result. And the placeholder exists
  and all three methods return false, but \<^verbatim>\<open>copyFileSync\<close> raises: the mock method
  returns false, no file exists, and the result is the failure result.
\<close>

theorem C1_counterexample:
  "mockImage spawn_failure_env \<in> files loopback_world \<and>
   copy_ok spawn_failure_env \<and>
   fst (specialized spawn_failure_env) = Resolves False \<and>
   standard_fails (ffmpeg_outcome spawn_failure_env) \<and>
   \<not> fst (fallback spawn_failure_env) \<and>
   fst (capturePhoto spawn_failure_env (Some ''/dev/video0'') (Some ''webcam'')
          (Some ''USB Webcam'') True loopback_world) = Failure \<and>
   mockImage copy_failure_env \<in> files loopback_world \<and>
   fst (specialized copy_failure_env) = Resolves False \<and>
   standard_resolves_false (ffmpeg_outcome copy_failure_env) \<and>
   \<not> fst (fallback copy_failure_env) \<and>
   fst (capturePhoto copy_failure_env (Some ''/dev/video0'') (Some ''webcam'')
          (Some ''USB Webcam'') True loopback_world) = Failure"
proof -
  have spawn_fields: "specialized spawn_failure_env = (Resolves False, False)"
    "ffmpeg_outcome spawn_failure_env = SpawnThrew"
    "fallback spawn_failure_env = (False, False)" "copy_ok spawn_failure_env"
    by (simp_all add: spawn_failure_env_def loopback_env_fields)
  have copy_fields: "specialized copy_failure_env = (Resolves False, False)"
    "ffmpeg_outcome copy_failure_env = Closed 1 False"
    "fallback copy_failure_env = (False, False)" "\<not> copy_ok copy_failure_env"
    by (simp_all add: copy_failure_env_def loopback_env_fields)
  have mock: "mockImage spawn_failure_env \<in> files loopback_world"
    "mockImage copy_failure_env \<in> files loopback_world"
    by code_simp+
  have out: "capture_path copy_failure_env \<notin> files loopback_world"
    by code_simp
  have one: "fst (capturePhoto spawn_failure_env (Some ''/dev/video0'') (Some ''webcam'')
                    (Some ''USB Webcam'') True loopback_world) = Failure"
    by (simp add: capturePhoto_def Let_def webcam_is_plain split_beta fst_captureV4L2Photo
        spawn_fields)
  have two: "fst (capturePhoto copy_failure_env (Some ''/dev/video0'') (Some ''webcam'')
                    (Some ''USB Webcam'') True loopback_world) = Failure"
    using mock(2) out
    by (simp add: capturePhoto_def Let_def webcam_is_plain split_beta fst_captureV4L2Photo
        files_captureV4L2Photo_eq fallbackCapture_def add_file_def useMockImage_def
        copy_fields)
  show ?thesis
    using one two mock
    by (simp add: spawn_fields copy_fields standard_fails_def standard_resolves_false_def)
qed

lemma capturePhoto_raises:
  assumes "chain_raises env devicePath ty mdl"
  shows "fst (capturePhoto env devicePath ty mdl streamer w) = Failure"
proof (cases "isCanonR6 devicePath ty mdl")
  case (Inl e)
  then show ?thesis
    by (simp add: capturePhoto_def)
next
  case (Inr r6)
  let ?lp = "capture_path env"
  have ns: "\<not> specialized_succeeds env devicePath ty mdl"
    and rej: "\<not> truthy devicePath \<or> ffmpeg_outcome env = SpawnThrew"
    using assms Inr by (auto simp: chain_raises_def)
  have "fst (if r6 \<or> isCanon5D mdl then specializedCapture env ?lp w else (False, w)) = False"
    using ns Inr
    by (cases "fst (specialized env)")
      (auto simp: specialized_succeeds_def specializedCapture_def)
  then obtain w1 where s1:
    "(if r6 \<or> isCanon5D mdl then specializedCapture env ?lp w else (False, w)) = (False, w1)"
    by (cases "if r6 \<or> isCanon5D mdl then specializedCapture env ?lp w else (False, w)") auto
  obtain e w2 where s2: "captureV4L2Photo env ?lp devicePath streamer w1 = (Inl e, w2)"
    using captureV4L2Photo_rejects [of env ?lp devicePath streamer w1] rej
    by (cases "captureV4L2Photo env ?lp devicePath streamer w1") auto
  show ?thesis
    by (simp add: capturePhoto_def Inr s1 s2)
qed

lemma capturePhoto_decides:
  assumes "\<not> chain_raises env devicePath ty mdl"
  shows "\<exists>w4. capturePhoto env devicePath ty mdl streamer w =
                (if capture_path env \<notin> files w4 then (Failure, w4)
                 else (Success (capture_path env) (capture_filename env), w4))"
proof -
  let ?lp = "capture_path env"
  obtain r6 where r6: "isCanonR6 devicePath ty mdl = Inr r6"
    using assms isCanonR6_error [of devicePath ty mdl]
    by (cases "isCanonR6 devicePath ty mdl") (auto simp: chain_raises_def)
  obtain s1 w1 where s1:
    "(if r6 \<or> isCanon5D mdl then specializedCapture env ?lp w else (False, w)) = (s1, w1)"
    by (cases "if r6 \<or> isCanon5D mdl then specializedCapture env ?lp w else (False, w)") auto
  have s1_iff: "s1 \<longleftrightarrow> specialized_succeeds env devicePath ty mdl"
    using s1 r6
    by (cases "fst (specialized env)")
      (auto simp: specialized_succeeds_def specializedCapture_def split: if_splits)
  obtain s2 w2 where s2:
    "(if \<not> s1 then captureV4L2Photo env ?lp devicePath streamer w1 else (Inr s1, w1))
       = (Inr s2, w2)"
  proof (cases s1)
    case True
    then show ?thesis
      using that by simp
  next
    case False
    then have "\<not> (\<exists>e. fst (captureV4L2Photo env ?lp devicePath streamer w1) = Inl e)"
      using assms s1_iff captureV4L2Photo_rejects [of env ?lp devicePath streamer w1]
      by (auto simp: chain_raises_def)
    then obtain b where "fst (captureV4L2Photo env ?lp devicePath streamer w1) = Inr b"
      by (cases "fst (captureV4L2Photo env ?lp devicePath streamer w1)") auto
    then have "captureV4L2Photo env ?lp devicePath streamer w1
                 = (Inr b, snd (captureV4L2Photo env ?lp devicePath streamer w1))"
      by (simp add: prod_eq_iff)
    then show ?thesis
      using that False by simp
  qed
  obtain s3 w3 where s3:
    "(if \<not> s2 then fallbackCapture env ?lp w2 else (s2, w2)) = (s3, w3)"
    by (cases "if \<not> s2 then fallbackCapture env ?lp w2 else (s2, w2)") auto
  obtain s4 w4 where s4:
    "(if \<not> s3 then useMockImage env ?lp w3 else (s3, w3)) = (s4, w4)"
    by (cases "if \<not> s3 then useMockImage env ?lp w3 else (s3, w3)") auto
  have "capturePhoto env devicePath ty mdl streamer w =
          (if ?lp \<notin> files w4 then (Failure, w4)
           else (Success ?lp (capture_filename env), w4))"
    by (simp add: capturePhoto_def r6 s1 s2 s3 s4)
  then show ?thesis
    by blast
qed

text \<open>
  C2, as the code has it. When no exception reaches the \<^verbatim>\<open>catch\<close> of \<^verbatim>\<open>capturePhoto\<close>,
  the result is the success result exactly when a file exists at the output path after
  the chain has run, whatever the methods reported. When the R6 test raises or the
  standard method rejects, the result is the failure result, whether or not a file
  exists there.
\<close>

theorem C2_file_existence_decides:
  "fst (capturePhoto env devicePath ty mdl streamer w) =
     (if chain_raises env devicePath ty mdl then Failure
      else if capture_path env \<in> files (snd (capturePhoto env devicePath ty mdl streamer w))
        then Success (capture_path env) (capture_filename env)
      else Failure)"
proof (cases "chain_raises env devicePath ty mdl")
  case True
  then show ?thesis
    by (simp add: capturePhoto_raises)
next
  case False
  then obtain w4 where
    "capturePhoto env devicePath ty mdl streamer w =
       (if capture_path env \<notin> files w4 then (Failure, w4)
        else (Success (capture_path env) (capture_filename env), w4))"
    using capturePhoto_decides by blast
  then show ?thesis
    using False by (simp split: if_splits)
qed

theorem C2_witness:
  "\<not> chain_raises nonzero_exit_env (Some ''/dev/video0'') (Some ''webcam'') (Some ''USB Webcam'') \<and>
   fst (captureV4L2Photo nonzero_exit_env (capture_path nonzero_exit_env) (Some ''/dev/video0'')
          True loopback_world) = Inr False \<and>
   fst (capturePhoto nonzero_exit_env (Some ''/dev/video0'') (Some ''webcam'')
          (Some ''USB Webcam'') True loopback_world)
     = Success (capture_path nonzero_exit_env) (capture_filename nonzero_exit_env) \<and>
   \<not> chain_raises empty_success_env (Some ''/dev/video0'') (Some ''webcam'') (Some ''USB Webcam'') \<and>
   fst (captureV4L2Photo empty_success_env (capture_path empty_success_env)
          (Some ''/dev/video0'') True loopback_world) = Inr True \<and>
   fst (capturePhoto empty_success_env (Some ''/dev/video0'') (Some ''webcam'')
          (Some ''USB Webcam'') True loopback_world) = Failure"
proof -
  have a1: "\<not> chain_raises nonzero_exit_env (Some ''/dev/video0'') (Some ''webcam'')
               (Some ''USB Webcam'')"
    by code_simp
  have nz: "specialized nonzero_exit_env = (Resolves False, False)"
    "ffmpeg_outcome nonzero_exit_env = Closed 1 True"
    "fallback nonzero_exit_env = (False, False)" "\<not> copy_ok nonzero_exit_env"
    by (simp_all add: nonzero_exit_env_def loopback_env_fields)
  have es: "specialized empty_success_env = (Resolves False, False)"
    "ffmpeg_outcome empty_success_env = Closed 0 False"
    by (simp_all add: empty_success_env_def loopback_env_fields)
  have out: "capture_path empty_success_env \<notin> files loopback_world"
    by code_simp
  have a2: "capture_path nonzero_exit_env
              \<in> files (snd (capturePhoto nonzero_exit_env (Some ''/dev/video0'') (Some ''webcam'')
                               (Some ''USB Webcam'') True loopback_world))"
    by (simp add: capturePhoto_def Let_def webcam_is_plain split_beta fst_captureV4L2Photo
        files_captureV4L2Photo_eq fallbackCapture_def add_file_def useMockImage_def nz)
  have a3: "fst (captureV4L2Photo nonzero_exit_env (capture_path nonzero_exit_env)
                   (Some ''/dev/video0'') True loopback_world) = Inr False"
    by (simp add: fst_captureV4L2Photo nz)
  have b1: "\<not> chain_raises empty_success_env (Some ''/dev/video0'') (Some ''webcam'')
               (Some ''USB Webcam'')"
    by code_simp
  have b2: "capture_path empty_success_env
              \<notin> files (snd (capturePhoto empty_success_env (Some ''/dev/video0'') (Some ''webcam'')
                               (Some ''USB Webcam'') True loopback_world))"
    using out
    by (simp add: capturePhoto_def Let_def webcam_is_plain split_beta fst_captureV4L2Photo
        files_captureV4L2Photo_eq es)
  have b3: "fst (captureV4L2Photo empty_success_env (capture_path empty_success_env)
                   (Some ''/dev/video0'') True loopback_world) = Inr True"
    by (simp add: fst_captureV4L2Photo es)
  show ?thesis
    using a1 a2 a3 b1 b2 b3
      C2_file_existence_decides [of nonzero_exit_env "Some ''/dev/video0''" "Some ''webcam''"
        "Some ''USB Webcam''" True loopback_world]
      C2_file_existence_decides [of empty_success_env "Some ''/dev/video0''" "Some ''webcam''"
        "Some ''USB Webcam''" True loopback_world]
    by simp
qed

text \<open>
  C2 as the specification words it fails: the specialised capture of a Canon R6 leaves
  a file at the output path, and the standard method then rejects because ffmpeg cannot
  be spawned. A file exists at the output path and the result is the failure result.
\<close>

theorem C2_counterexample:
  "capture_path r6_partial_env
     \<in> files (snd (capturePhoto r6_partial_env (Some ''/dev/video0'') (Some ''canon'')
                      (Some ''Canon EOS R6'') True loopback_world)) \<and>
   fst (capturePhoto r6_partial_env (Some ''/dev/video0'') (Some ''canon'')
          (Some ''Canon EOS R6'') True loopback_world) = Failure"
proof -
  have r6: "isCanonR6 (Some ''/dev/video0'') (Some ''canon'') (Some ''Canon EOS R6'') = Inr True"
    by code_simp
  have env: "specialized r6_partial_env = (Resolves False, True)"
    "ffmpeg_outcome r6_partial_env = SpawnThrew"
    by (simp_all add: r6_partial_env_def loopback_env_fields)
  show ?thesis
    by (simp add: capturePhoto_def Let_def r6 split_beta fst_captureV4L2Photo
        files_captureV4L2Photo_eq specializedCapture_def add_file_def env)
qed

section \<open>Properties of the capture controller\<close>

lemma capture_admit_accepts:
  "capture_admit now g = (True, g') \<Longrightarrow>
     activeCaptureOperations g < 1 \<and> now - lastCaptureAttempt g \<ge> 5000 \<and>
     lastCaptureAttempt g' = now"
  by (auto simp: capture_admit_def MAX_CAPTURE_OPERATIONS_def CAPTURE_COOLDOWN_MS_def
      split: if_splits)

lemma capture_admit_rejects: "capture_admit now g = (False, g') \<Longrightarrow> g' = g"
  by (auto simp: capture_admit_def split: if_splits)

lemma lastCaptureAttempt_cleanup: "lastCaptureAttempt (cleanupCapture g) = lastCaptureAttempt g"
  by (simp add: cleanupCapture_def)

lemma activeCaptureOperations_cleanup: "0 \<le> activeCaptureOperations (cleanupCapture g)"
  by (simp add: cleanupCapture_def)

lemma activeCaptureOperations_admit:
  "0 \<le> activeCaptureOperations g \<Longrightarrow> 0 \<le> activeCaptureOperations (snd (capture_admit now g))"
  by (simp add: capture_admit_def)

text \<open>The counter is never negative.\<close>

lemma gate_after_nonneg:
  "0 \<le> activeCaptureOperations g \<Longrightarrow> 0 \<le> activeCaptureOperations (gate_after es g)"
proof (induction es arbitrary: g)
  case Nil
  then show ?case
    by simp
next
  case (Cons e es)
  then show ?case
    by (cases e) (simp_all add: activeCaptureOperations_cleanup activeCaptureOperations_admit)
qed

text \<open>While the counter is at least 1, requests are rejected and change nothing.\<close>

lemma gate_after_busy:
  assumes "1 \<le> activeCaptureOperations g"
    and "\<forall>e \<in> set further. \<not> is_response_event e"
  shows "gate_after further g = g"
  using assms
proof (induction further)
  case Nil
  then show ?case
    by simp
next
  case (Cons e further)
  then show ?case
    by (cases e) (simp_all add: capture_admit_def MAX_CAPTURE_OPERATIONS_def)
qed

lemma accepted_requests_spacing:
  assumes "case accepted of None \<Rightarrow> True | Some t' \<Rightarrow> lastCaptureAttempt g = t'"
  shows "\<forall>(t, completed', accepted') \<in> set (accepted_requests es g completed accepted).
           case accepted' of None \<Rightarrow> True | Some t' \<Rightarrow> t - t' \<ge> 5000"
  using assms
proof (induction es arbitrary: g completed accepted)
  case Nil
  then show ?case
    by simp
next
  case (Cons e es)
  show ?case
  proof (cases e)
    case (Request now)
    obtain ok g' where adm: "capture_admit now g = (ok, g')"
      by (cases "capture_admit now g") auto
    show ?thesis
    proof (cases ok)
      case True
      have here: "case accepted of None \<Rightarrow> True | Some t' \<Rightarrow> now - t' \<ge> 5000"
        using capture_admit_accepts [of now g g'] adm True Cons.prems
        by (auto split: option.splits)
      have "case Some now of None \<Rightarrow> True | Some t' \<Rightarrow> lastCaptureAttempt g' = t'"
        using capture_admit_accepts [of now g g'] adm True by simp
      from Cons.IH [OF this, of completed]
      show ?thesis
        using Request adm True here by simp
    next
      case False
      then have "g' = g"
        using adm capture_admit_rejects [of now g g'] by simp
      with Cons.IH [OF Cons.prems, of completed]
      show ?thesis
        using Request adm False by simp
    qed
  next
    case (Settled t)
    from Cons.IH [OF Cons.prems, of completed]
    show ?thesis
      using Settled by simp
  next
    case (Finish t)
    have "case accepted of None \<Rightarrow> True | Some t' \<Rightarrow> lastCaptureAttempt (cleanupCapture g) = t'"
      using Cons.prems by (simp add: lastCaptureAttempt_cleanup split: option.splits)
    from Cons.IH [OF this, of "Some t"]
    show ?thesis
      using Finish by simp
  next
    case (Close t)
    have "case accepted of None \<Rightarrow> True | Some t' \<Rightarrow> lastCaptureAttempt (cleanupCapture g) = t'"
      using Cons.prems by (simp add: lastCaptureAttempt_cleanup split: option.splits)
    from Cons.IH [OF this, of completed]
    show ?thesis
      using Close by simp
  qed
qed

text \<open>
  C4, as the code has it by design. In every history of the controller, once a capture
  request has been accepted, every request that arrives before a \<^verbatim>\<open>finish\<close> or \<^verbatim>\<open>close\<close>
  event of a response is answered 429 at once: the pipeline is not entered, so no
  capture child is started, and the world and the trackers are unchanged. And an
  accepted request comes at least 5000 ms after the previous accepted request was
  received.
\<close>

theorem C4_one_capture_and_cooldown:
  "(capture_admit now (gate_after es initial_gate) = (True, g) \<and>
    (\<forall>e \<in> set further. \<not> is_response_event e) \<longrightarrow>
      capturePhoto_handler later pipeline (gate_after further g, w) = (429, g, w)) \<and>
   (\<forall>(t, completed, accepted) \<in> set (accepted_requests es initial_gate None None).
      case accepted of None \<Rightarrow> True | Some t' \<Rightarrow> t - t' \<ge> 5000)"
proof -
  have spacing: "\<forall>(t, completed, accepted) \<in> set (accepted_requests es initial_gate None None).
          case accepted of None \<Rightarrow> True | Some t' \<Rightarrow> t - t' \<ge> 5000"
    by (rule accepted_requests_spacing) simp
  have busy: "capturePhoto_handler later pipeline (gate_after further g, w) = (429, g, w)"
    if adm: "capture_admit now (gate_after es initial_gate) = (True, g)"
      and fur: "\<forall>e \<in> set further. \<not> is_response_event e"
  proof -
    have "0 \<le> activeCaptureOperations (gate_after es initial_gate)"
      by (rule gate_after_nonneg) (simp add: initial_gate_def)
    then have one: "1 \<le> activeCaptureOperations g"
      using adm by (auto simp: capture_admit_def split: if_splits)
    have "gate_after further g = g"
      using one fur by (rule gate_after_busy)
    then show ?thesis
      using one
      by (simp add: capturePhoto_handler_def capture_admit_def MAX_CAPTURE_OPERATIONS_def)
  qed
  show ?thesis
    using spacing busy by blast
qed

theorem C4_witness:
  "capture_admit 10000 (gate_after [] initial_gate) = (True, busy_gate) \<and>
   filter is_response_event waiting_more = [] \<and>
   capturePhoto_handler 15500 (\<lambda>w. (200, emit (Delay 1) w))
       (gate_after waiting_more busy_gate, initial_world {})
     = (429, busy_gate, initial_world {}) \<and>
   accepted_requests spaced_capture_history initial_gate None None
     = [(10000, None, None), (16000, Some 11000, Some 10000)] \<and>
   (16000::int) - 10000 \<ge> 5000"
proof -
  have h: "accepted_requests spaced_capture_history initial_gate None None
             = [(10000, None, None), (16000, Some 11000, Some 10000)]"
    by code_simp
  have a: "capture_admit 10000 (gate_after [] initial_gate) = (True, busy_gate)"
    by code_simp
  have m: "\<forall>e \<in> set waiting_more. \<not> is_response_event e"
    by (simp add: waiting_more_def)
  have f: "filter is_response_event waiting_more = []"
    by (simp add: waiting_more_def)
  show ?thesis
    using h a m f
      C4_one_capture_and_cooldown [of 10000 "[]" busy_gate waiting_more 15500
        "\<lambda>w. (200, emit (Delay 1) w)" "initial_world {}"]
    by simp
qed

text \<open>
  C4 as the specification words it fails. The cooldown is not measured from the
  completion of the previous capture: a capture accepted at 10000 completes at 14000,
  and the request at 15500, 1500 ms after the completion, is accepted. And a request
  can be accepted while an accepted capture is still running: the response of the
  capture accepted at 10000 is closed at 10100, which takes the counter back to 0, and
  the request at 15000 is accepted although the first capture settles only at 16000.
\<close>

theorem C4_counterexample:
  "accepted_requests slow_capture_history initial_gate None None
     = [(10000, None, None), (15500, Some 14000, Some 10000)] \<and>
   \<not> cooldown_since_completion slow_capture_history \<and>
   captures_running abandoned_capture_history initial_gate 0 = [(10000, 0), (15000, 1)] \<and>
   \<not> one_capture_in_flight abandoned_capture_history"
  by code_simp

section \<open>Properties of the restart controller\<close>

lemma window_filter_mono:
  assumes "T \<le> n"
  shows "filter (\<lambda>t. n - t < c) (filter (\<lambda>t. T - t < c) l) = filter (\<lambda>t. n - t < (c::int)) l"
proof -
  have "(n - t < c \<and> T - t < c) = (n - t < c)" for t
    using assms by arith
  then show ?thesis
    by (simp add: conj_commute)
qed

lemma window_filter_transfer:
  assumes "T \<le> n"
    and "filter (\<lambda>t. T - t < c) a = filter (\<lambda>t. T - t < c) b"
  shows "filter (\<lambda>t. n - t < (c::int)) a = filter (\<lambda>t. n - t < c) b"
proof -
  have "filter (\<lambda>t. n - t < c) a = filter (\<lambda>t. n - t < c) (filter (\<lambda>t. T - t < c) a)"
    using window_filter_mono [OF assms(1)] by simp
  also have "\<dots> = filter (\<lambda>t. n - t < c) (filter (\<lambda>t. T - t < c) b)"
    using assms(2) by simp
  also have "\<dots> = filter (\<lambda>t. n - t < c) b"
    using window_filter_mono [OF assms(1)] by simp
  finally show ?thesis .
qed

text \<open>With a clock that does not run backwards, the restarts executed within the
  window before a time are exactly the entries of \<^verbatim>\<open>recentRestarts\<close> within it.\<close>

lemma restart_run_window:
  assumes "restart_run es (g, ex) = (g', ex')"
    and "sorted (T # request_times es @ [now])"
    and "filter (\<lambda>t. T - t < RESTART_COOLDOWN_PERIOD) ex
           = filter (\<lambda>t. T - t < RESTART_COOLDOWN_PERIOD) (recentRestarts g)"
  shows "filter (\<lambda>t. now - t < RESTART_COOLDOWN_PERIOD) ex'
           = filter (\<lambda>t. now - t < RESTART_COOLDOWN_PERIOD) (recentRestarts g')"
  using assms
proof (induction es arbitrary: g ex T)
  case Nil
  then have "T \<le> now"
    by simp
  then show ?case
    using Nil window_filter_transfer [of T now RESTART_COOLDOWN_PERIOD ex "recentRestarts g"]
    by simp
next
  case (Cons e es)
  show ?case
  proof (cases e)
    case (RestartRequest n)
    have Tn: "T \<le> n" and srt: "sorted (n # request_times es @ [now])"
      using Cons.prems(2) RestartRequest by auto
    have win: "filter (\<lambda>t. n - t < RESTART_COOLDOWN_PERIOD) ex
                 = filter (\<lambda>t. n - t < RESTART_COOLDOWN_PERIOD) (recentRestarts g)"
      using window_filter_transfer [OF Tn Cons.prems(3)] .
    obtain status started g1 where req: "restartCameraServices n g = (status, started, g1)"
      by (cases "restartCameraServices n g") auto
    let ?ex1 = "if started then ex @ [n] else ex"
    have inv1: "filter (\<lambda>t. n - t < RESTART_COOLDOWN_PERIOD) ?ex1
                  = filter (\<lambda>t. n - t < RESTART_COOLDOWN_PERIOD) (recentRestarts g1)"
      using req win
      by (auto simp: restartCameraServices_def Let_def RESTART_COOLDOWN_PERIOD_def
          split: if_splits)
    have run: "restart_run es (g1, ?ex1) = (g', ex')"
      using Cons.prems(1) RestartRequest req by simp
    show ?thesis
      using Cons.IH [OF run srt inv1] .
  next
    case BackgroundDone
    have run: "restart_run es (restartFinished g, ex) = (g', ex')"
      using Cons.prems(1) BackgroundDone by simp
    have srt: "sorted (T # request_times es @ [now])"
      using Cons.prems(2) BackgroundDone by simp
    have inv1: "filter (\<lambda>t. T - t < RESTART_COOLDOWN_PERIOD) ex
                  = filter (\<lambda>t. T - t < RESTART_COOLDOWN_PERIOD)
                      (recentRestarts (restartFinished g))"
      using Cons.prems(3) by (simp add: restartFinished_def)
    show ?thesis
      using Cons.IH [OF run srt inv1] .
  qed
qed

text \<open>
  C5. Take any history of the restart controller on a clock that does not run
  backwards. If three restarts or more were executed less than 10000 ms before a
  request, the request is answered 429 and \<^verbatim>\<open>processRestartInBackground\<close> is not
  started. A request that arrives while \<^verbatim>\<open>restartInProgress\<close> is set is answered 429, the
  restart is not started, and the variables are unchanged.
\<close>

theorem C5_restart_rate_limit:
  assumes "sorted (request_times es @ [now])"
    and "restart_run es (initial_restart_gate, []) = (g, executed)"
    and "length (filter (\<lambda>t. now - t < RESTART_COOLDOWN_PERIOD) executed) \<ge> MAX_RECENT_RESTARTS"
  shows "fst (restartCameraServices now g) = 429 \<and>
         \<not> fst (snd (restartCameraServices now g)) \<and>
         (restartInProgress g0 \<longrightarrow> restartCameraServices now0 g0 = (429, False, g0))"
proof -
  let ?T = "hd (request_times es @ [now])"
  have srt: "sorted (?T # request_times es @ [now])"
    using assms(1) by (cases "request_times es @ [now]") auto
  have "filter (\<lambda>t. now - t < RESTART_COOLDOWN_PERIOD) executed
          = filter (\<lambda>t. now - t < RESTART_COOLDOWN_PERIOD) (recentRestarts g)"
    using restart_run_window [OF assms(2) srt] by (simp add: initial_restart_gate_def)
  then have "length (filter (\<lambda>t. now - t < RESTART_COOLDOWN_PERIOD) (recentRestarts g))
               \<ge> MAX_RECENT_RESTARTS"
    using assms(3) by simp
  then show ?thesis
    by (simp add: restartCameraServices_def Let_def)
qed

theorem C5_witness:
  "sorted (request_times three_restarts @ [4000]) \<and>
   restart_run three_restarts (initial_restart_gate, [])
     = (\<lparr>restartInProgress = False, recentRestarts = [1000, 2000, 3000]\<rparr>, [1000, 2000, 3000]) \<and>
   length (filter (\<lambda>t. 4000 - t < RESTART_COOLDOWN_PERIOD) [1000, 2000, 3000])
     \<ge> MAX_RECENT_RESTARTS \<and>
   fst (restartCameraServices 4000
          \<lparr>restartInProgress = False, recentRestarts = [1000, 2000, 3000]\<rparr>) = 429 \<and>
   \<not> fst (snd (restartCameraServices 4000
                 \<lparr>restartInProgress = False, recentRestarts = [1000, 2000, 3000]\<rparr>)) \<and>
   restartInProgress \<lparr>restartInProgress = True, recentRestarts = [1000]\<rparr> \<and>
   restartCameraServices 1500 \<lparr>restartInProgress = True, recentRestarts = [1000]\<rparr>
     = (429, False, \<lparr>restartInProgress = True, recentRestarts = [1000]\<rparr>)"
proof -
  have h1: "sorted (request_times three_restarts @ [4000])"
    by (simp add: three_restarts_def)
  have h2: "restart_run three_restarts (initial_restart_gate, [])
              = (\<lparr>restartInProgress = False, recentRestarts = [1000, 2000, 3000]\<rparr>,
                 [1000, 2000, 3000])"
    by code_simp
  have h3: "length (filter (\<lambda>t. 4000 - t < RESTART_COOLDOWN_PERIOD) [1000, 2000, 3000])
              \<ge> MAX_RECENT_RESTARTS"
    by (simp add: RESTART_COOLDOWN_PERIOD_def MAX_RECENT_RESTARTS_def)
  show ?thesis
    using h1 h2 h3
      C5_restart_rate_limit [OF h1 h2 h3,
        of "\<lparr>restartInProgress = True, recentRestarts = [1000]\<rparr>" 1500]
    by simp
qed

section \<open>Properties of the camera service\<close>

text \<open>\<^verbatim>\<open>startStream\<close> on the standard path, with no process recorded, when ffmpeg can be
  spawned.\<close>

lemma startStream_standard:
  assumes "mjpegProcess w = None" and "truthy d"
    and "\<not> isR6 (the d) t m" and "\<not> is5D m"
  shows "fst (startStream d t m True w) = (Some (ChildProcess (nextPid w)), Some mjpeg_url)"
    and "mjpegProcess (snd (startStream d t m True w)) = Some (ChildProcess (nextPid w))"
    and "nextPid (snd (startStream d t m True w)) = Suc (nextPid w)"
    and "alive (snd (startStream d t m True w)) = alive w @ [nextPid w]"
    and "trace (snd (startStream d t m True w)) =
           trace w @ [StartStreamCalled d t m,
                      Spawned ''ffmpeg'' (mjpegArgs (the d) t m) (Some (nextPid w))]"
  using assms
  by (cases d; simp add: startStream_def Let_def emit_def setupMjpegStream_def spawn_def
      setupStreamErrorHandling_def)+

lemma stopStream_clears:
  "mjpegProcess (stopStream w) = None" "nextPid (stopStream w) = nextPid w"
  by (simp_all add: stopStream_def Let_def emit_def split: option.splits handle.splits)

lemma psAnswers_keeps:
  "mjpegProcess (psAnswers ps w) = mjpegProcess w" "nextPid (psAnswers ps w) = nextPid w"
  by (simp_all add: psAnswers_def releaseRuns_def releaseDevices_signals_def
      split: option.splits)

lemma reconnect_connects:
  assumes "\<not> cameraConnected cs" and "mjpegProcess w = None"
    and "detected r" and "truthy (device r)"
    and "\<not> isR6 (the (device r)) (dtype r) (model r)" and "\<not> is5D (model r)"
  shows "\<exists>cs' w'. checkCameraReconnection (Inr r) True (cs, w) = (True, cs', w') \<and>
           cameraConnected cs' \<and>
           v4l2Device cs' = device r \<and> cameraType cs' = dtype r \<and> cameraModel cs' = model r \<and>
           mjpegProcess w' = Some (ChildProcess (nextPid w)) \<and>
           nextPid w' = Suc (nextPid w) \<and>
           alive w' = alive w @ [nextPid w] \<and>
           trace w' =
             trace w @ [StartStreamCalled (device r) (dtype r) (model r),
                        Spawned ''ffmpeg'' (mjpegArgs (the (device r)) (dtype r) (model r))
                          (Some (nextPid w))]"
  using assms(1,3,4) startStream_standard [OF assms(2,4,5,6)]
  by (simp add: checkCameraReconnection_def checkCameraAvailability_def startCameraStream_def
      split_beta)

lemma reconnect_disconnects:
  assumes "cameraConnected cs" and "case gone of Inl e \<Rightarrow> True | Inr r \<Rightarrow> \<not> detected r"
  shows "\<exists>cs'. checkCameraReconnection gone ok (cs, w) = (False, cs', stopStream w) \<and>
           \<not> cameraConnected cs'"
  using assms
  by (cases gone)
    (simp_all add: checkCameraReconnection_def checkCameraAvailability_def stopCameraStream_def)

text \<open>
  C6, as the code has it. The camera service is disconnected and the stream service
  has no process recorded. In three consecutive poll cycles the detector reports a
  camera, then no camera (or fails), then a camera again, for instance on a different
  device path; both cameras are streamed by the standard set-up (neither the R6 nor the
  5D test holds), and ffmpeg can be spawned. Then the first cycle calls \<^verbatim>\<open>startStream\<close>
  with the device path, type and model it detected, which spawns the preview command
  for that identity and records the child; the second cycle calls \<^verbatim>\<open>stopStream\<close>, which
  sends SIGTERM to that child, clears the reference and starts \<^verbatim>\<open>releaseDevices\<close>; if
  the \<^verbatim>\<open>ps\<close> of that call answers before the third cycle, the running ffmpeg children
  are sent SIGTERM; the third cycle calls \<^verbatim>\<open>startStream\<close> with the identity it detected,
  which spawns the preview command for it and records the new child. The three cycles
  make no other call and launch nothing else, and the service ends bound to the
  identity of the third cycle.
\<close>

theorem C6_reconnection_polling:
  assumes "\<not> cameraConnected cs" and "mjpegProcess w = None"
    and "detected a" and "truthy (device a)"
    and "\<not> isR6 (the (device a)) (dtype a) (model a)" and "\<not> is5D (model a)"
    and "case gone of Inl e \<Rightarrow> True | Inr r \<Rightarrow> \<not> detected r"
    and "detected b" and "truthy (device b)"
    and "\<not> isR6 (the (device b)) (dtype b) (model b)" and "\<not> is5D (model b)"
  shows "\<exists>cs1 w1 cs2 w2 cs3 w3.
           checkCameraReconnection (Inr a) True (cs, w) = (True, cs1, w1) \<and>
           checkCameraReconnection gone ok2 (cs1, w1) = (False, cs2, w2) \<and>
           checkCameraReconnection (Inr b) True (cs2, psAnswers ps w2) = (True, cs3, w3) \<and>
           mjpegProcess w1 = Some (ChildProcess (nextPid w)) \<and>
           mjpegProcess w2 = None \<and>
           mjpegProcess w3 = Some (ChildProcess (Suc (nextPid w))) \<and>
           trace w3 =
             trace w @
               [StartStreamCalled (device a) (dtype a) (model a),
                Spawned ''ffmpeg'' (mjpegArgs (the (device a)) (dtype a) (model a))
                  (Some (nextPid w)),
                StopStreamCalled,
                Killed (nextPid w),
                ReleaseDevices] @
               (if ps = Some True then map Killed (alive w @ [nextPid w]) else []) @
               [StartStreamCalled (device b) (dtype b) (model b),
                Spawned ''ffmpeg'' (mjpegArgs (the (device b)) (dtype b) (model b))
                  (Some (Suc (nextPid w)))] \<and>
           cameraConnected cs3 \<and>
           v4l2Device cs3 = device b \<and> cameraType cs3 = dtype b \<and> cameraModel cs3 = model b"
proof -
  obtain cs1 w1 where 1: "checkCameraReconnection (Inr a) True (cs, w) = (True, cs1, w1)"
    and c1: "cameraConnected cs1"
    and p1: "mjpegProcess w1 = Some (ChildProcess (nextPid w))"
    and n1: "nextPid w1 = Suc (nextPid w)"
    and a1: "alive w1 = alive w @ [nextPid w]"
    and t1: "trace w1 =
               trace w @ [StartStreamCalled (device a) (dtype a) (model a),
                          Spawned ''ffmpeg'' (mjpegArgs (the (device a)) (dtype a) (model a))
                            (Some (nextPid w))]"
    using reconnect_connects [OF assms(1-6)] by blast
  obtain cs2 where 2: "checkCameraReconnection gone ok2 (cs1, w1) = (False, cs2, stopStream w1)"
    and c2: "\<not> cameraConnected cs2"
    using reconnect_disconnects [OF c1 assms(7), of ok2 w1] by blast
  let ?w2 = "stopStream w1"
  let ?v2 = "psAnswers ps ?w2"
  have p2: "mjpegProcess ?w2 = None"
    by (simp add: stopStream_clears)
  have q2: "mjpegProcess ?v2 = None" and n2: "nextPid ?v2 = Suc (nextPid w)"
    using n1 by (simp_all add: psAnswers_keeps stopStream_clears)
  have t2: "trace ?v2 =
              trace w1 @ [StopStreamCalled, Killed (nextPid w), ReleaseDevices] @
                (if ps = Some True then map Killed (alive w @ [nextPid w]) else [])"
    using p1 a1 by (simp add: trace_psAnswers_stopStream trace_stopStream)
  obtain cs3 w3 where 3: "checkCameraReconnection (Inr b) True (cs2, ?v2) = (True, cs3, w3)"
    and c3: "cameraConnected cs3" "v4l2Device cs3 = device b" "cameraType cs3 = dtype b"
      "cameraModel cs3 = model b"
    and p3: "mjpegProcess w3 = Some (ChildProcess (nextPid ?v2))"
    and t3: "trace w3 =
               trace ?v2 @ [StartStreamCalled (device b) (dtype b) (model b),
                            Spawned ''ffmpeg'' (mjpegArgs (the (device b)) (dtype b) (model b))
                              (Some (nextPid ?v2))]"
    using reconnect_connects [OF c2 q2 assms(8-11)] by blast
  show ?thesis
    using 1 2 3 c3 p1 p2 p3 n2 t1 t2 t3 by simp
qed

lemma webcam_standard:
  "detected (webcam_at p) \<and> truthy (device (webcam_at p)) = (p \<noteq> []) \<and>
   \<not> isR6 (the (device (webcam_at p))) (dtype (webcam_at p)) (model (webcam_at p)) \<and>
   \<not> is5D (model (webcam_at p))"
proof -
  have "\<not> js_includes ''USB Webcam'' ''R6 Mark II''" "\<not> js_includes ''USB Webcam'' ''R6''"
    "\<not> js_includes ''USB Webcam'' ''5D Mark IV''" "\<not> js_includes ''USB Webcam'' ''5D''"
    "\<not> js_includes ''USB Webcam'' ''EOS 5D''"
    by code_simp+
  then show ?thesis
    by (simp add: webcam_at_def isR6_def is5D_def)
qed

theorem C6_witness:
  "\<not> cameraConnected idle_service \<and> mjpegProcess (initial_world {}) = None \<and>
   detected (webcam_at ''/dev/video0'') \<and> truthy (device (webcam_at ''/dev/video0'')) \<and>
   \<not> isR6 ''/dev/video0'' (Some ''webcam'') (Some ''USB Webcam'') \<and>
   \<not> is5D (Some ''USB Webcam'') \<and>
   \<not> detected nothing_detected \<and>
   detected (webcam_at ''/dev/video2'') \<and> truthy (device (webcam_at ''/dev/video2'')) \<and>
   \<not> isR6 ''/dev/video2'' (Some ''webcam'') (Some ''USB Webcam'') \<and>
   (\<exists>cs1 w1 cs2 w2 cs3 w3.
      checkCameraReconnection (Inr (webcam_at ''/dev/video0'')) True
          (idle_service, initial_world {}) = (True, cs1, w1) \<and>
      checkCameraReconnection (Inr nothing_detected) True (cs1, w1) = (False, cs2, w2) \<and>
      checkCameraReconnection (Inr (webcam_at ''/dev/video2'')) True
          (cs2, psAnswers (Some True) w2) = (True, cs3, w3) \<and>
      mjpegProcess w1 = Some (ChildProcess 0) \<and>
      mjpegProcess w2 = None \<and>
      mjpegProcess w3 = Some (ChildProcess 1) \<and>
      trace w3 =
        [StartStreamCalled (Some ''/dev/video0'') (Some ''webcam'') (Some ''USB Webcam''),
         Spawned ''ffmpeg'' (mjpegArgs ''/dev/video0'' (Some ''webcam'') (Some ''USB Webcam''))
           (Some 0),
         StopStreamCalled,
         Killed 0,
         ReleaseDevices,
         Killed 0,
         StartStreamCalled (Some ''/dev/video2'') (Some ''webcam'') (Some ''USB Webcam''),
         Spawned ''ffmpeg'' (mjpegArgs ''/dev/video2'' (Some ''webcam'') (Some ''USB Webcam''))
           (Some 1)] \<and>
      cameraConnected cs3 \<and>
      v4l2Device cs3 = Some ''/dev/video2'' \<and>
      cameraType cs3 = Some ''webcam'' \<and> cameraModel cs3 = Some ''USB Webcam'')"
proof -
  have h1: "\<not> cameraConnected idle_service"
    by (simp add: idle_service_def)
  have h0: "mjpegProcess (initial_world {}) = None"
    by (simp add: initial_world_def)
  have d: "detected (webcam_at p)" for p
    using webcam_standard [of p] by simp
  have r: "\<not> isR6 (the (device (webcam_at p))) (dtype (webcam_at p)) (model (webcam_at p))"
    and e: "\<not> is5D (model (webcam_at p))" for p
    using webcam_standard [of p] by simp_all
  have h3: "case Inr nothing_detected of Inl e \<Rightarrow> True | Inr r \<Rightarrow> \<not> detected r"
    by (simp add: nothing_detected_def)
  have a: "truthy (device (webcam_at ''/dev/video0''))"
    and b: "truthy (device (webcam_at ''/dev/video2''))"
    by (simp_all add: webcam_standard)
  have i: "trace (initial_world {}) = []" "nextPid (initial_world {}) = 0"
    "alive (initial_world {}) = []"
    by (simp_all add: initial_world_def)
  show ?thesis
    using h1 h0 d a b h3 i r [of "''/dev/video0''"] r [of "''/dev/video2''"]
      e [of "''/dev/video0''"]
      C6_reconnection_polling [OF h1 h0 d a r e h3 d b r e, of True "Some True"]
    by (simp add: webcam_at_def nothing_detected_def)
qed

text \<open>
  C6 as the specification words it fails, in two ways. A stream process can be
  recorded while the service is disconnected: from the state described above, the
  first cycle detects the webcam on \<^verbatim>\<open>/dev/video0\<close> and connects, but its \<^verbatim>\<open>startStream\<close>
  call returns the recorded process; nothing is launched, and the preview stays the
  child that was spawned for \<^verbatim>\<open>/dev/video5\<close> with type \<^verbatim>\<open>canon\<close>. The second cycle stops
  that child, and over the three cycles the stream is started once, in the third. And a
  camera of type \<^verbatim>\<open>canon\<close> on \<^verbatim>\<open>/dev/video1\<close> takes the R6 path, whose set-up is
  asynchronous: the first cycle launches nothing, the second cycle finds nothing to
  stop, and the set-up then spawns the preview for the device it chose itself,
  \<^verbatim>\<open>/dev/video2\<close>, and records it although the service is disconnected.
\<close>

lemma stale_state_reached:
  "(let s1 = snd (checkCameraReconnection (Inr (webcam_at ''/dev/video5'')) True
                    (idle_service, initial_world {''/dev/video5''}));
        s2 = snd (checkCameraReconnection (Inl (Error ''detector'')) True s1)
    in (fst s2,
        snd (captureV4L2Photo video5_env ''/app/public/photos/p.jpg'' (v4l2Device (fst s2))
               True (snd s2))))
   = (stale_service, stale_world)"
  by code_simp

theorem C6_counterexample:
  "\<not> cameraConnected stale_service \<and>
   fst stale_cycle1 \<and>
   cameraConnected (fst (snd stale_cycle1)) \<and>
   v4l2Device (fst (snd stale_cycle1)) = Some ''/dev/video0'' \<and>
   \<not> fst stale_cycle2 \<and>
   \<not> cameraConnected (fst (snd stale_cycle2)) \<and>
   fst stale_cycle3 \<and>
   v4l2Device (fst (snd stale_cycle3)) = Some ''/dev/video2'' \<and>
   drop (length (trace stale_world)) (trace (snd (snd stale_cycle1)))
     = [StartStreamCalled (Some ''/dev/video0'') (Some ''webcam'') (Some ''USB Webcam'')] \<and>
   recorded_children (snd (snd stale_cycle1)) = [2] \<and>
   Spawned ''ffmpeg'' (mjpegArgs ''/dev/video5'' (Some ''canon'') (Some ''Canon Camera''))
       (Some 2) \<in> set (trace stale_world) \<and>
   filter is_spawn (drop (length (trace stale_world)) (trace (snd (snd stale_cycle3))))
     = [Spawned ''ffmpeg'' (mjpegArgs ''/dev/video2'' (Some ''webcam'') (Some ''USB Webcam''))
          (Some 3)] \<and>
   fst canon_cycle1 \<and>
   trace (snd (snd canon_cycle1))
     = [StartStreamCalled (Some ''/dev/video1'') (Some ''canon'')
          (Some ''Canon Camera (v4l2 mode)''),
        ReleaseDevices] \<and>
   recorded_children (snd (snd canon_cycle1)) = [] \<and>
   \<not> fst canon_cycle2 \<and>
   \<not> cameraConnected (fst (snd canon_cycle2)) \<and>
   drop (length (trace (snd (snd canon_cycle1)))) (trace (snd (snd canon_cycle2)))
     = [StopStreamCalled, ReleaseDevices] \<and>
   drop (length (trace (snd (snd canon_cycle2)))) (trace canon_settled)
     = [Spawned ''ffmpeg'' video2_stream_args (Some 0)] \<and>
   recorded_children canon_settled = [0]"
  by code_simp

section \<open>Properties of the device manager\<close>

lemma verifyDevice_body_fails:
  "introspection_fails (v4l2_ctl env p) \<Longrightarrow> verifyDevice_body env fs (Some p) \<noteq> Inr True"
  by (auto simp: verifyDevice_body_def introspection_fails_def
      split: sum.splits introspection.splits if_splits)

text \<open>
  C7, as the code has it. \<^verbatim>\<open>verifyDevice\<close> never raises: for every argument and every
  behaviour of the file system and of \<^verbatim>\<open>v4l2-ctl\<close> it resolves with a boolean. On Linux it
  resolves with false for a missing argument, for a path that does not exist, and for a
  path whose introspection fails. On any other platform it resolves with true at once.
\<close>

theorem C7_verifyDevice_total:
  "(\<exists>b. verifyDevice env fs devicePath = Inr b) \<and>
   (platform env = ''linux'' \<longrightarrow>
      (devicePath = None \<longrightarrow> verifyDevice env fs devicePath = Inr False) \<and>
      (\<forall>p. devicePath = Some p \<and> p \<notin> fs \<longrightarrow> verifyDevice env fs devicePath = Inr False) \<and>
      (\<forall>p. devicePath = Some p \<and> introspection_fails (v4l2_ctl env p)
           \<longrightarrow> verifyDevice env fs devicePath = Inr False)) \<and>
   (platform env \<noteq> ''linux'' \<longrightarrow> verifyDevice env fs devicePath = Inr True)"
proof -
  have total: "\<exists>b. verifyDevice env fs devicePath = Inr b"
    by (cases "verifyDevice_body env fs devicePath") (auto simp: verifyDevice_def)
  have none: "verifyDevice_body env fs None = Inr False"
    by (simp add: verifyDevice_body_def)
  have missing: "p \<notin> fs \<Longrightarrow> verifyDevice_body env fs (Some p) = Inr False" for p
    by (simp add: verifyDevice_body_def)
  have fails: "introspection_fails (v4l2_ctl env p) \<Longrightarrow> platform env = ''linux'' \<Longrightarrow>
                 verifyDevice env fs (Some p) = Inr False" for p
    using verifyDevice_body_fails [of env p fs]
    by (cases "verifyDevice_body env fs (Some p)") (auto simp: verifyDevice_def)
  show ?thesis
    using total none missing fails by (auto simp: verifyDevice_def)
qed

theorem C7_witness:
  "platform linux_env = ''linux'' \<and>
   ''/dev/video9'' \<notin> {''/dev/video0''} \<and>
   verifyDevice linux_env {''/dev/video0''} (Some ''/dev/video9'') = Inr False \<and>
   introspection_fails (v4l2_ctl linux_env ''/dev/video0'') \<and>
   verifyDevice linux_env {''/dev/video0''} (Some ''/dev/video0'') = Inr False \<and>
   verifyDevice linux_env {''/dev/video0''} None = Inr False \<and>
   platform mac_env \<noteq> ''linux'' \<and>
   verifyDevice mac_env {''/dev/video0''} (Some ''/dev/video0'') = Inr True"
proof -
  have p: "platform linux_env = ''linux''"
    by (simp add: linux_env_def)
  have q: "platform mac_env \<noteq> ''linux''"
    by (simp add: mac_env_def)
  have m: "''/dev/video9'' \<notin> {''/dev/video0''}"
    by simp
  have f: "introspection_fails (v4l2_ctl linux_env ''/dev/video0'')"
    by (simp add: linux_env_def mac_env_def introspection_fails_def)
  show ?thesis
    using p q m f
      C7_verifyDevice_total [of linux_env "{''/dev/video0''}" "Some ''/dev/video9''"]
      C7_verifyDevice_total [of linux_env "{''/dev/video0''}" "Some ''/dev/video0''"]
      C7_verifyDevice_total [of linux_env "{''/dev/video0''}" None]
      C7_verifyDevice_total [of mac_env "{''/dev/video0''}" "Some ''/dev/video0''"]
    by simp
qed

text \<open>
  C7 as the specification words it fails: on a host that is not Linux, \<^verbatim>\<open>verifyDevice\<close>
  resolves with true for a path that does not exist.
\<close>

theorem C7_counterexample:
  "''/dev/video9'' \<notin> ({} :: string set) \<and>
   verifyDevice mac_env {} (Some ''/dev/video9'') = Inr True"
  by (simp add: verifyDevice_def mac_env_def)

end
